theory Spec2Isabelle
  imports Complex_Main "HOL-Library.Word"
begin

unbundle bit_operations_syntax

section \<open>Machine types and bit helpers\<close>

text \<open>
  A \<open>u8\<close> is an 8-bit word and an \<open>Address\<close> or \<open>u16\<close> a 16-bit word. A C++ \<open>uint\<close>
  is a natural number below \<open>2 ^ 32\<close>; wherever the source can wrap, the reduction
  \<open>mod 2 ^ 32\<close> is written out. A \<open>float\<close> sample is a real number: the model keeps
  the arithmetic of the source and leaves rounding out. Log output is not modelled.
\<close>

type_synonym u8 = "8 word"
type_synonym u16 = "16 word"

text \<open>
  Modelled from the spec: \<open>ByteRegister\<close> and the helpers of \<open>util/bitwise.h\<close>
  (\<open>register.h\<close> and \<open>util/bitwise.h\<close> are not among the sources). A byte register is
  the 8-bit cell of the specification with read, set, bit-set, bit-get and increment
  operations, so a register is a \<open>u8\<close>, \<open>set\<close> replaces it, \<open>increment\<close> adds 1 and
  \<open>reset\<close> makes it 0; \<open>check_bit\<close> and \<open>bit_value\<close> read one bit and \<open>set_bit_to\<close>
  writes one bit.
\<close>

definition check_bit :: "u8 \<Rightarrow> nat \<Rightarrow> bool" where
  "check_bit v n = bit v n"

definition bit_value :: "u8 \<Rightarrow> nat \<Rightarrow> nat" where
  "bit_value v n = (if bit v n then 1 else 0)"

definition set_bit_to :: "u8 \<Rightarrow> nat \<Rightarrow> bool \<Rightarrow> u8" where
  "set_bit_to v n b = (if b then set_bit n v else unset_bit n v)"

definition set_bit_to_uint :: "nat \<Rightarrow> nat \<Rightarrow> bool \<Rightarrow> nat" where
  "set_bit_to_uint v n b = (if b then set_bit n v else unset_bit n v)"

definition uint_max :: nat where
  "uint_max = 2 ^ 32"

text \<open>
  A call that can throw has a \<open>result\<close>: \<open>Inr\<close> of the object as the call left it
  when the call returns, and \<open>Inl\<close> of the exception and the object as the throw
  left it otherwise. \<open>returned\<close> tells the two apart and \<open>state_of\<close> is the object
  in either case. The only exception in the sources modelled here is the
  \<open>std::bad_function_call\<close> of calling an empty \<open>std::function\<close>.
\<close>

datatype error = bad_function_call

type_synonym 'a result = "error \<times> 'a + 'a"

definition returned :: "'a result \<Rightarrow> bool" where
  "returned r = (case r of Inl e \<Rightarrow> False | Inr x \<Rightarrow> True)"

definition state_of :: "'a result \<Rightarrow> 'a" where
  "state_of r = (case r of Inl e \<Rightarrow> snd e | Inr x \<Rightarrow> x)"

section \<open>Sound channels (audio/audio.h, audio/audio.cc)\<close>

text \<open>
  The base class \<open>SoundChannel\<close> and its four subclasses, as extensible records.
  Fields that several subclasses declare under one name carry a prefix for the
  class (\<open>ts\<close>, \<open>tn\<close>, \<open>wv\<close>, \<open>ns\<close>). \<open>ToneSweepChannel::update_frequency\<close> is private
  and never called, and is left out.
\<close>

record SoundChannel =
  enabled :: bool
  volume :: u8
  length_counter :: nat
  length_enabled :: bool

record ToneSweepChannel = SoundChannel +
  sweep_time :: u8
  sweep_decrease :: bool
  sweep_shift :: u8
  ts_duty_pattern :: u8
  ts_duty_position :: u8
  ts_envelope_initial_volume :: u8
  ts_envelope_increase :: bool
  ts_envelope_sweep_pace :: u8
  ts_frequency :: nat
  ts_timer :: nat

record ToneChannel = SoundChannel +
  tn_duty_pattern :: u8
  tn_duty_position :: u8
  tn_envelope_initial_volume :: u8
  tn_envelope_increase :: bool
  tn_envelope_sweep_pace :: u8
  tn_frequency :: nat
  tn_timer :: nat

record WaveChannel = SoundChannel +
  wave_pattern :: "u8 list"
  wv_position :: u8
  output_level :: u8
  wv_frequency :: nat
  wv_timer :: nat

record NoiseChannel = SoundChannel +
  ns_envelope_initial_volume :: u8
  ns_envelope_increase :: bool
  ns_envelope_sweep_pace :: u8
  shift_clock_frequency :: u8
  counter_step_width_mode :: bool
  dividing_ratio :: u8
  ns_timer :: nat
  lfsr :: nat

definition set_enabled :: "bool \<Rightarrow> 'a SoundChannel_scheme \<Rightarrow> 'a SoundChannel_scheme" where
  "set_enabled b c = c\<lparr>enabled := b\<rparr>"

definition duty_patterns :: "bool list list" where
  "duty_patterns =
     [[False, False, False, False, False, False, False, True],
      [False, False, False, False, False, False, True, True],
      [False, False, False, False, True, True, True, True],
      [True, True, True, True, True, True, False, False]]"

definition divisors :: "nat list" where
  "divisors = [8, 16, 32, 48, 64, 80, 96, 112]"

text \<open>
  The period reload shared by the square channels (factor 4) and the wave channel
  (factor 2): the frequency is capped at 2047 and a zero period is replaced.
\<close>

definition period_reload :: "nat \<Rightarrow> nat \<Rightarrow> nat" where
  "period_reload k frequency =
     (let freq_val = (if frequency > 2047 then 2047 else frequency);
          t = (2048 - freq_val) * k
      in if t = 0 then 8192 * k else t)"

definition noise_period :: "u8 \<Rightarrow> u8 \<Rightarrow> nat" where
  "noise_period ratio shift =
     (let divisor = divisors ! unat (ratio AND 0x07);
          clock_shift = unat (shift AND 0x0F);
          new_timer_period = push_bit clock_shift divisor
      in if new_timer_period = 0 then 8 else new_timer_period)"

subsection \<open>Channel 1: tone and sweep\<close>

definition ToneSweepChannel_tick :: "nat \<Rightarrow> ToneSweepChannel \<Rightarrow> ToneSweepChannel" where
  "ToneSweepChannel_tick cycles c =
     (if \<not> enabled c then c
      else if ts_timer c > cycles then c\<lparr>ts_timer := ts_timer c - cycles\<rparr>
      else c\<lparr>ts_duty_position := of_nat ((unat (ts_duty_position c) + 1) mod 8),
             ts_timer := period_reload 4 (ts_frequency c)\<rparr>)"

definition ToneSweepChannel_get_sample :: "ToneSweepChannel \<Rightarrow> real" where
  "ToneSweepChannel_get_sample c =
     (if \<not> enabled c then 0
      else if duty_patterns ! unat (ts_duty_pattern c) ! unat (ts_duty_position c)
        then real (unat (volume c)) / 15
        else - (real (unat (volume c)) / 15))"

definition ToneSweepChannel_set_sweep_register :: "u8 \<Rightarrow> ToneSweepChannel \<Rightarrow> ToneSweepChannel" where
  "ToneSweepChannel_set_sweep_register v c =
     c\<lparr>sweep_time := drop_bit 4 v AND 0x07,
       sweep_decrease := check_bit v 3,
       sweep_shift := v AND 0x07\<rparr>"

definition ToneSweepChannel_set_length_duty_register :: "u8 \<Rightarrow> ToneSweepChannel \<Rightarrow> ToneSweepChannel" where
  "ToneSweepChannel_set_length_duty_register v c =
     c\<lparr>ts_duty_pattern := drop_bit 6 v AND 0x03,
       length_counter := 64 - unat (v AND 0x3F)\<rparr>"

definition ToneSweepChannel_set_volume_envelope_register :: "u8 \<Rightarrow> ToneSweepChannel \<Rightarrow> ToneSweepChannel" where
  "ToneSweepChannel_set_volume_envelope_register v c =
     c\<lparr>ts_envelope_initial_volume := drop_bit 4 v AND 0x0F,
       ts_envelope_increase := check_bit v 3,
       ts_envelope_sweep_pace := v AND 0x07,
       volume := drop_bit 4 v AND 0x0F\<rparr>"

definition ToneSweepChannel_set_frequency_lo_register :: "u8 \<Rightarrow> ToneSweepChannel \<Rightarrow> ToneSweepChannel" where
  "ToneSweepChannel_set_frequency_lo_register v c =
     c\<lparr>ts_frequency := (ts_frequency c AND 0x700) OR unat v\<rparr>"

definition ToneSweepChannel_set_frequency_hi_register :: "u8 \<Rightarrow> ToneSweepChannel \<Rightarrow> ToneSweepChannel" where
  "ToneSweepChannel_set_frequency_hi_register v c =
     (let c1 = c\<lparr>ts_frequency := (ts_frequency c AND 0xFF) OR push_bit 8 (unat (v AND 0x07))\<rparr>;
          c2 = (if check_bit v 7
                then c1\<lparr>enabled := True,
                        ts_timer := period_reload 4 (ts_frequency c1),
                        length_counter := (if length_counter c1 = 0 then 64 else length_counter c1),
                        ts_duty_position := 0,
                        volume := ts_envelope_initial_volume c1\<rparr>
                else c1)
      in c2\<lparr>length_enabled := check_bit v 6\<rparr>)"

subsection \<open>Channel 2: tone\<close>

definition ToneChannel_tick :: "nat \<Rightarrow> ToneChannel \<Rightarrow> ToneChannel" where
  "ToneChannel_tick cycles c =
     (if \<not> enabled c then c
      else if tn_timer c > cycles then c\<lparr>tn_timer := tn_timer c - cycles\<rparr>
      else c\<lparr>tn_duty_position := of_nat ((unat (tn_duty_position c) + 1) mod 8),
             tn_timer := period_reload 4 (tn_frequency c)\<rparr>)"

definition ToneChannel_get_sample :: "ToneChannel \<Rightarrow> real" where
  "ToneChannel_get_sample c =
     (if \<not> enabled c then 0
      else if duty_patterns ! unat (tn_duty_pattern c) ! unat (tn_duty_position c)
        then real (unat (volume c)) / 15
        else - (real (unat (volume c)) / 15))"

definition ToneChannel_set_length_duty_register :: "u8 \<Rightarrow> ToneChannel \<Rightarrow> ToneChannel" where
  "ToneChannel_set_length_duty_register v c =
     c\<lparr>tn_duty_pattern := drop_bit 6 v AND 0x03,
       length_counter := 64 - unat (v AND 0x3F)\<rparr>"

definition ToneChannel_set_volume_envelope_register :: "u8 \<Rightarrow> ToneChannel \<Rightarrow> ToneChannel" where
  "ToneChannel_set_volume_envelope_register v c =
     c\<lparr>tn_envelope_initial_volume := drop_bit 4 v AND 0x0F,
       tn_envelope_increase := check_bit v 3,
       tn_envelope_sweep_pace := v AND 0x07,
       volume := drop_bit 4 v AND 0x0F\<rparr>"

definition ToneChannel_set_frequency_lo_register :: "u8 \<Rightarrow> ToneChannel \<Rightarrow> ToneChannel" where
  "ToneChannel_set_frequency_lo_register v c =
     c\<lparr>tn_frequency := (tn_frequency c AND 0x700) OR unat v\<rparr>"

definition ToneChannel_set_frequency_hi_register :: "u8 \<Rightarrow> ToneChannel \<Rightarrow> ToneChannel" where
  "ToneChannel_set_frequency_hi_register v c =
     (let c1 = c\<lparr>tn_frequency := (tn_frequency c AND 0xFF) OR push_bit 8 (unat (v AND 0x07))\<rparr>;
          c2 = (if check_bit v 7
                then c1\<lparr>enabled := True,
                        tn_timer := period_reload 4 (tn_frequency c1),
                        length_counter := (if length_counter c1 = 0 then 64 else length_counter c1),
                        tn_duty_position := 0,
                        volume := tn_envelope_initial_volume c1\<rparr>
                else c1)
      in c2\<lparr>length_enabled := check_bit v 6\<rparr>)"

subsection \<open>Channel 3: wave output\<close>

definition WaveChannel_tick :: "nat \<Rightarrow> WaveChannel \<Rightarrow> WaveChannel" where
  "WaveChannel_tick cycles c =
     (if \<not> enabled c then c
      else if wv_timer c > cycles then c\<lparr>wv_timer := wv_timer c - cycles\<rparr>
      else c\<lparr>wv_position := of_nat ((unat (wv_position c) + 1) mod 32),
             wv_timer := period_reload 2 (wv_frequency c)\<rparr>)"

definition WaveChannel_get_sample :: "WaveChannel \<Rightarrow> real" where
  "WaveChannel_get_sample c =
     (if \<not> enabled c then 0
      else let wave_byte = wave_pattern c ! (unat (wv_position c) div 2);
               wave_nibble = (if unat (wv_position c) mod 2 = 0
                              then drop_bit 4 wave_byte else wave_byte AND 0x0F);
               s = real (unat wave_nibble) / 7.5 - 1
           in if output_level c = 0 then 0
              else if output_level c = 1 then s
              else if output_level c = 2 then s * 0.5
              else if output_level c = 3 then s * 0.25
              else 0)"

definition WaveChannel_set_enable_register :: "u8 \<Rightarrow> WaveChannel \<Rightarrow> WaveChannel" where
  "WaveChannel_set_enable_register v c = c\<lparr>enabled := check_bit v 7\<rparr>"

definition WaveChannel_set_length_register :: "u8 \<Rightarrow> WaveChannel \<Rightarrow> WaveChannel" where
  "WaveChannel_set_length_register v c = c\<lparr>length_counter := 256 - unat v\<rparr>"

definition WaveChannel_set_output_level_register :: "u8 \<Rightarrow> WaveChannel \<Rightarrow> WaveChannel" where
  "WaveChannel_set_output_level_register v c = c\<lparr>output_level := drop_bit 5 v AND 0x03\<rparr>"

definition WaveChannel_set_frequency_lo_register :: "u8 \<Rightarrow> WaveChannel \<Rightarrow> WaveChannel" where
  "WaveChannel_set_frequency_lo_register v c =
     c\<lparr>wv_frequency := (wv_frequency c AND 0x700) OR unat v\<rparr>"

definition WaveChannel_set_frequency_hi_register :: "u8 \<Rightarrow> WaveChannel \<Rightarrow> WaveChannel" where
  "WaveChannel_set_frequency_hi_register v c =
     (let c1 = c\<lparr>wv_frequency := (wv_frequency c AND 0xFF) OR push_bit 8 (unat (v AND 0x07))\<rparr>;
          c2 = (if check_bit v 7
                then c1\<lparr>enabled := True,
                        wv_timer := period_reload 2 (wv_frequency c1),
                        wv_position := 0,
                        length_counter := (if length_counter c1 = 0 then 256 else length_counter c1)\<rparr>
                else c1)
      in c2\<lparr>length_enabled := check_bit v 6\<rparr>)"

definition WaveChannel_set_wave_pattern :: "u8 \<Rightarrow> u8 \<Rightarrow> WaveChannel \<Rightarrow> WaveChannel" where
  "WaveChannel_set_wave_pattern index v c =
     (if unat index < 16 then c\<lparr>wave_pattern := (wave_pattern c)[unat index := v]\<rparr> else c)"

definition WaveChannel_get_wave_pattern :: "u8 \<Rightarrow> WaveChannel \<Rightarrow> u8" where
  "WaveChannel_get_wave_pattern index c =
     (if unat index < 16 then wave_pattern c ! unat index else 0xFF)"

subsection \<open>Channel 4: noise\<close>

definition NoiseChannel_tick :: "nat \<Rightarrow> NoiseChannel \<Rightarrow> NoiseChannel" where
  "NoiseChannel_tick cycles c =
     (if \<not> enabled c then c
      else if ns_timer c > cycles then c\<lparr>ns_timer := ns_timer c - cycles\<rparr>
      else let xor_result = (((lfsr c AND 0x1) XOR (drop_bit 1 (lfsr c) AND 0x1)) \<noteq> 0);
               l1 = set_bit_to_uint (drop_bit 1 (lfsr c)) 14 xor_result;
               l2 = (if counter_step_width_mode c then set_bit_to_uint l1 6 xor_result else l1)
           in c\<lparr>ns_timer := noise_period (dividing_ratio c) (shift_clock_frequency c),
                lfsr := l2\<rparr>)"

definition NoiseChannel_get_sample :: "NoiseChannel \<Rightarrow> real" where
  "NoiseChannel_get_sample c =
     (if \<not> enabled c then 0
      else if (lfsr c AND 0x1) = 0
        then real (unat (volume c)) / 15
        else - (real (unat (volume c)) / 15))"

definition NoiseChannel_set_length_register :: "u8 \<Rightarrow> NoiseChannel \<Rightarrow> NoiseChannel" where
  "NoiseChannel_set_length_register v c = c\<lparr>length_counter := 64 - unat (v AND 0x3F)\<rparr>"

definition NoiseChannel_set_volume_envelope_register :: "u8 \<Rightarrow> NoiseChannel \<Rightarrow> NoiseChannel" where
  "NoiseChannel_set_volume_envelope_register v c =
     c\<lparr>ns_envelope_initial_volume := drop_bit 4 v AND 0x0F,
       ns_envelope_increase := check_bit v 3,
       ns_envelope_sweep_pace := v AND 0x07,
       volume := drop_bit 4 v AND 0x0F\<rparr>"

definition NoiseChannel_set_polynomial_register :: "u8 \<Rightarrow> NoiseChannel \<Rightarrow> NoiseChannel" where
  "NoiseChannel_set_polynomial_register v c =
     c\<lparr>shift_clock_frequency := drop_bit 4 v AND 0x0F,
       counter_step_width_mode := check_bit v 3,
       dividing_ratio := v AND 0x07\<rparr>"

definition NoiseChannel_set_counter_register :: "u8 \<Rightarrow> NoiseChannel \<Rightarrow> NoiseChannel" where
  "NoiseChannel_set_counter_register v c =
     (let c2 = (if check_bit v 7
                then c\<lparr>enabled := True,
                       lfsr := 0x7FFF,
                       ns_timer := noise_period (dividing_ratio c) (shift_clock_frequency c),
                       length_counter := (if length_counter c = 0 then 64 else length_counter c),
                       volume := ns_envelope_initial_volume c\<rparr>
                else c)
      in c2\<lparr>length_enabled := check_bit v 6\<rparr>)"

section \<open>The APU (class Audio)\<close>

text \<open>
  The host callback is a \<open>std::function\<close> that may be empty: \<open>audio_callback_set\<close>
  says whether it holds a target and \<open>audio_callback_calls\<close> lists the pairs of
  vectors it has been called with, oldest first. \<open>register_audio_callback\<close> copies
  its argument into the member; \<open>has_target\<close> says whether the argument holds a
  target. Log output is not part of the state.
\<close>

record Audio =
  nr50 :: u8
  nr51 :: u8
  nr52 :: u8
  channel1 :: ToneSweepChannel
  channel2 :: ToneChannel
  channel3 :: WaveChannel
  channel4 :: NoiseChannel
  sample_counter :: nat
  left_buffer :: "real list"
  right_buffer :: "real list"
  audio_callback_set :: bool
  audio_callback_calls :: "(real list \<times> real list) list"

text \<open>
  Modelled from the spec: \<open>CLOCK_RATE\<close>, a constant of \<open>definitions.h\<close>, which is not
  among the sources. It is the CPU clock of the specification, 4194304 Hz.
\<close>

definition CLOCK_RATE :: nat where
  "CLOCK_RATE = 4194304"

definition CYCLES_PER_SAMPLE :: nat where
  "CYCLES_PER_SAMPLE = CLOCK_RATE div 44100"

text \<open>
  The state the constructors leave: the member initialisers of \<open>audio.h\<close>, the zeroed
  wave pattern and the LFSR seed. The initial contents of the three byte registers
  are those of \<open>ByteRegister\<close> and are left open.
\<close>

definition ToneSweepChannel_init :: ToneSweepChannel where
  "ToneSweepChannel_init =
     \<lparr>enabled = False, volume = 0, length_counter = 0, length_enabled = False,
      sweep_time = 0, sweep_decrease = False, sweep_shift = 0,
      ts_duty_pattern = 0, ts_duty_position = 0,
      ts_envelope_initial_volume = 0, ts_envelope_increase = False,
      ts_envelope_sweep_pace = 0, ts_frequency = 0, ts_timer = 0\<rparr>"

definition ToneChannel_init :: ToneChannel where
  "ToneChannel_init =
     \<lparr>enabled = False, volume = 0, length_counter = 0, length_enabled = False,
      tn_duty_pattern = 0, tn_duty_position = 0,
      tn_envelope_initial_volume = 0, tn_envelope_increase = False,
      tn_envelope_sweep_pace = 0, tn_frequency = 0, tn_timer = 0\<rparr>"

definition WaveChannel_init :: WaveChannel where
  "WaveChannel_init =
     \<lparr>enabled = False, volume = 0, length_counter = 0, length_enabled = False,
      wave_pattern = replicate 16 0, wv_position = 0, output_level = 0,
      wv_frequency = 0, wv_timer = 0\<rparr>"

definition NoiseChannel_init :: NoiseChannel where
  "NoiseChannel_init =
     \<lparr>enabled = False, volume = 0, length_counter = 0, length_enabled = False,
      ns_envelope_initial_volume = 0, ns_envelope_increase = False,
      ns_envelope_sweep_pace = 0, shift_clock_frequency = 0,
      counter_step_width_mode = False, dividing_ratio = 0,
      ns_timer = 0, lfsr = 0x7FFF\<rparr>"

definition Audio_init :: "u8 \<Rightarrow> u8 \<Rightarrow> u8 \<Rightarrow> Audio" where
  "Audio_init r50 r51 r52 =
     \<lparr>nr50 = r50, nr51 = r51, nr52 = r52,
      channel1 = ToneSweepChannel_init, channel2 = ToneChannel_init,
      channel3 = WaveChannel_init, channel4 = NoiseChannel_init,
      sample_counter = 0, left_buffer = [], right_buffer = [],
      audio_callback_set = False, audio_callback_calls = []\<rparr>"

definition Audio_register_audio_callback :: "bool \<Rightarrow> Audio \<Rightarrow> Audio" where
  "Audio_register_audio_callback has_target a = a\<lparr>audio_callback_set := has_target\<rparr>"

definition Audio_read_register :: "Audio \<Rightarrow> u16 \<Rightarrow> u8" where
  "Audio_read_register a address =
     (if 0xFF10 \<le> address \<and> address \<le> 0xFF14 then
        (if address = 0xFF10 then 0x80
         else if address = 0xFF11 then 0x3F
         else if address = 0xFF12 then push_bit 4 (volume (channel1 a))
         else if address = 0xFF13 then 0xFF
         else if address = 0xFF14 then 0xBF
         else 0xFF)
      else if 0xFF16 \<le> address \<and> address \<le> 0xFF19 then
        (if address = 0xFF16 then 0x3F
         else if address = 0xFF17 then push_bit 4 (volume (channel2 a))
         else if address = 0xFF18 then 0xFF
         else if address = 0xFF19 then 0xBF
         else 0xFF)
      else if 0xFF1A \<le> address \<and> address \<le> 0xFF1E then
        (if address = 0xFF1A then (if enabled (channel3 a) then 0xFF else 0x7F)
         else if address = 0xFF1B then 0xFF
         else if address = 0xFF1C then 0x9F
         else if address = 0xFF1D then 0xFF
         else if address = 0xFF1E then 0xBF
         else 0xFF)
      else if 0xFF20 \<le> address \<and> address \<le> 0xFF23 then
        (if address = 0xFF20 then 0xFF
         else if address = 0xFF21 then push_bit 4 (volume (channel4 a))
         else if address = 0xFF22 then 0x00
         else if address = 0xFF23 then 0xBF
         else 0xFF)
      else if 0xFF24 \<le> address \<and> address \<le> 0xFF26 then
        (if address = 0xFF24 then nr50 a
         else if address = 0xFF25 then nr51 a
         else if address = 0xFF26 then
           (let value0 = (nr52 a AND 0x80) OR 0x70;
                value1 = (if enabled (channel1 a) then value0 OR 0x01 else value0);
                value2 = (if enabled (channel2 a) then value1 OR 0x02 else value1);
                value3 = (if enabled (channel3 a) then value2 OR 0x04 else value2);
                value4 = (if enabled (channel4 a) then value3 OR 0x08 else value3)
            in value4)
         else 0xFF)
      else if 0xFF30 \<le> address \<and> address \<le> 0xFF3F then
        WaveChannel_get_wave_pattern (ucast (address - 0xFF30)) (channel3 a)
      else 0xFF)"

definition Audio_write_register :: "Audio \<Rightarrow> u16 \<Rightarrow> u8 \<Rightarrow> Audio" where
  "Audio_write_register a address v =
     (let audio_enabled = check_bit (nr52 a) 7 in
      if \<not> audio_enabled \<and> address \<noteq> 0xFF26 then
        (if 0xFF30 \<le> address \<and> address \<le> 0xFF3F
         then a\<lparr>channel3 := WaveChannel_set_wave_pattern (ucast (address - 0xFF30)) v (channel3 a)\<rparr>
         else a)
      else if 0xFF10 \<le> address \<and> address \<le> 0xFF14 then
        (if address = 0xFF10 then a\<lparr>channel1 := ToneSweepChannel_set_sweep_register v (channel1 a)\<rparr>
         else if address = 0xFF11 then a\<lparr>channel1 := ToneSweepChannel_set_length_duty_register v (channel1 a)\<rparr>
         else if address = 0xFF12 then a\<lparr>channel1 := ToneSweepChannel_set_volume_envelope_register v (channel1 a)\<rparr>
         else if address = 0xFF13 then a\<lparr>channel1 := ToneSweepChannel_set_frequency_lo_register v (channel1 a)\<rparr>
         else if address = 0xFF14 then a\<lparr>channel1 := ToneSweepChannel_set_frequency_hi_register v (channel1 a)\<rparr>
         else a)
      else if 0xFF16 \<le> address \<and> address \<le> 0xFF19 then
        (if address = 0xFF16 then a\<lparr>channel2 := ToneChannel_set_length_duty_register v (channel2 a)\<rparr>
         else if address = 0xFF17 then a\<lparr>channel2 := ToneChannel_set_volume_envelope_register v (channel2 a)\<rparr>
         else if address = 0xFF18 then a\<lparr>channel2 := ToneChannel_set_frequency_lo_register v (channel2 a)\<rparr>
         else if address = 0xFF19 then a\<lparr>channel2 := ToneChannel_set_frequency_hi_register v (channel2 a)\<rparr>
         else a)
      else if 0xFF1A \<le> address \<and> address \<le> 0xFF1E then
        (if address = 0xFF1A then a\<lparr>channel3 := WaveChannel_set_enable_register v (channel3 a)\<rparr>
         else if address = 0xFF1B then a\<lparr>channel3 := WaveChannel_set_length_register v (channel3 a)\<rparr>
         else if address = 0xFF1C then a\<lparr>channel3 := WaveChannel_set_output_level_register v (channel3 a)\<rparr>
         else if address = 0xFF1D then a\<lparr>channel3 := WaveChannel_set_frequency_lo_register v (channel3 a)\<rparr>
         else if address = 0xFF1E then a\<lparr>channel3 := WaveChannel_set_frequency_hi_register v (channel3 a)\<rparr>
         else a)
      else if 0xFF20 \<le> address \<and> address \<le> 0xFF23 then
        (if address = 0xFF20 then a\<lparr>channel4 := NoiseChannel_set_length_register v (channel4 a)\<rparr>
         else if address = 0xFF21 then a\<lparr>channel4 := NoiseChannel_set_volume_envelope_register v (channel4 a)\<rparr>
         else if address = 0xFF22 then a\<lparr>channel4 := NoiseChannel_set_polynomial_register v (channel4 a)\<rparr>
         else if address = 0xFF23 then a\<lparr>channel4 := NoiseChannel_set_counter_register v (channel4 a)\<rparr>
         else a)
      else if 0xFF24 \<le> address \<and> address \<le> 0xFF26 then
        (if address = 0xFF24 then a\<lparr>nr50 := v\<rparr>
         else if address = 0xFF25 then a\<lparr>nr51 := v\<rparr>
         else if address = 0xFF26 then
           (let was_enabled = check_bit (nr52 a) 7;
                current_status = nr52 a AND 0x0F;
                a1 = a\<lparr>nr52 := (v AND 0x80) OR current_status OR 0x70\<rparr>;
                now_enabled = check_bit (nr52 a1) 7
            in if was_enabled \<and> \<not> now_enabled
               then a1\<lparr>channel1 := set_enabled False (channel1 a1),
                       channel2 := set_enabled False (channel2 a1),
                       channel3 := set_enabled False (channel3 a1),
                       channel4 := set_enabled False (channel4 a1)\<rparr>
               else a1)
         else a)
      else if 0xFF30 \<le> address \<and> address \<le> 0xFF3F then
        a\<lparr>channel3 := WaveChannel_set_wave_pattern (ucast (address - 0xFF30)) v (channel3 a)\<rparr>
      else a)"

definition clamp_sample :: "real \<Rightarrow> real" where
  "clamp_sample x = max (- 1) (min 1 x)"

text \<open>
  \<open>mix_of\<close> is the arithmetic of \<open>Audio::mix_samples\<close> for one side: the panned sum
  in the order of the source (channel 4 first), the master volume over 7, the
  division by 4.
\<close>

definition mix_of :: "bool \<Rightarrow> bool \<Rightarrow> bool \<Rightarrow> bool \<Rightarrow> real \<Rightarrow> real \<Rightarrow> real \<Rightarrow> real \<Rightarrow> u8 \<Rightarrow> real" where
  "mix_of p4 p3 p2 p1 sample1 sample2 sample3 sample4 vol =
     (let f0 = 0;
          f1 = (if p4 then f0 + sample4 else f0);
          f2 = (if p3 then f1 + sample3 else f1);
          f3 = (if p2 then f2 + sample2 else f2);
          f4 = (if p1 then f3 + sample1 else f3);
          f5 = f4 * (real (unat vol) / 7)
      in f5 / 4)"

definition Audio_mix_samples :: "Audio \<Rightarrow> Audio" where
  "Audio_mix_samples a =
     (if \<not> check_bit (nr52 a) 7
      then a\<lparr>left_buffer := left_buffer a @ [0], right_buffer := right_buffer a @ [0]\<rparr>
      else
        let sample1 = ToneSweepChannel_get_sample (channel1 a);
            sample2 = ToneChannel_get_sample (channel2 a);
            sample3 = WaveChannel_get_sample (channel3 a);
            sample4 = NoiseChannel_get_sample (channel4 a);
            left_vol = drop_bit 4 (nr50 a) AND 0x7;
            right_vol = nr50 a AND 0x7;
            left_final = mix_of (check_bit (nr51 a) 7) (check_bit (nr51 a) 6)
                           (check_bit (nr51 a) 5) (check_bit (nr51 a) 4)
                           sample1 sample2 sample3 sample4 left_vol;
            right_final = mix_of (check_bit (nr51 a) 3) (check_bit (nr51 a) 2)
                            (check_bit (nr51 a) 1) (check_bit (nr51 a) 0)
                            sample1 sample2 sample3 sample4 right_vol
        in a\<lparr>left_buffer := left_buffer a @ [clamp_sample left_final],
             right_buffer := right_buffer a @ [clamp_sample right_final]\<rparr>)"

text \<open>
  One round of the \<open>while\<close> loop of \<open>Audio::tick\<close>: take one sample period off the
  counter, mix, and hand the buffers over once the left one holds 1024 samples.
\<close>

definition Audio_sample_step :: "Audio \<Rightarrow> Audio" where
  "Audio_sample_step a =
     (let a1 = a\<lparr>sample_counter := sample_counter a - CYCLES_PER_SAMPLE\<rparr>;
          a2 = Audio_mix_samples a1
      in if length (left_buffer a2) \<ge> 1024
         then a2\<lparr>audio_callback_calls :=
                    (if audio_callback_set a2
                     then audio_callback_calls a2 @ [(left_buffer a2, right_buffer a2)]
                     else audio_callback_calls a2),
                 left_buffer := [],
                 right_buffer := []\<rparr>
         else a2)"

lemma sample_counter_mix_samples:
  "sample_counter (Audio_mix_samples a) = sample_counter a"
  by (simp add: Audio_mix_samples_def Let_def)

lemma sample_counter_sample_step:
  "sample_counter (Audio_sample_step a) = sample_counter a - CYCLES_PER_SAMPLE"
  by (simp add: Audio_sample_step_def Let_def sample_counter_mix_samples)

function Audio_sample_loop :: "Audio \<Rightarrow> Audio" where
  "Audio_sample_loop a =
     (if sample_counter a \<ge> CYCLES_PER_SAMPLE
      then Audio_sample_loop (Audio_sample_step a)
      else a)"
  by pat_completeness auto
termination
  by (relation "measure sample_counter")
     (simp_all add: sample_counter_sample_step CYCLES_PER_SAMPLE_def CLOCK_RATE_def)

declare Audio_sample_loop.simps [simp del]

text \<open>
  \<open>Audio::tick\<close> in two parts: first the four channel ticks and the increment of the
  sample counter, then the sampling loop.
\<close>

definition tick_channels :: "nat \<Rightarrow> Audio \<Rightarrow> Audio" where
  "tick_channels cycles a =
     a\<lparr>channel1 := ToneSweepChannel_tick cycles (channel1 a),
       channel2 := ToneChannel_tick cycles (channel2 a),
       channel3 := WaveChannel_tick cycles (channel3 a),
       channel4 := NoiseChannel_tick cycles (channel4 a),
       sample_counter := (sample_counter a + cycles) mod uint_max\<rparr>"

definition Audio_tick :: "nat \<Rightarrow> Audio \<Rightarrow> Audio" where
  "Audio_tick cycles a = Audio_sample_loop (tick_channels cycles a)"

subsection \<open>What holds in every state the APU can reach\<close>

text \<open>
  The APU starts in \<open>Audio_init\<close> and changes only through its public member
  functions: \<open>register_audio_callback\<close>, \<open>write_register\<close> (which the bus calls for
  0xFF10 to 0xFF3F) and \<open>tick\<close>. \<open>apu_reachable\<close> collects the states so obtained and
  \<open>apu_inv\<close> is the invariant they satisfy.
\<close>

definition in_range :: "real \<Rightarrow> bool" where
  "in_range x \<longleftrightarrow> - 1 \<le> x \<and> x \<le> 1"

definition all_channels_disabled :: "Audio \<Rightarrow> bool" where
  "all_channels_disabled a \<longleftrightarrow>
     \<not> enabled (channel1 a) \<and> \<not> enabled (channel2 a) \<and>
     \<not> enabled (channel3 a) \<and> \<not> enabled (channel4 a)"

definition good_call :: "real list \<times> real list \<Rightarrow> bool" where
  "good_call p \<longleftrightarrow>
     length (fst p) = 1024 \<and> length (snd p) = 1024 \<and>
     list_all in_range (fst p) \<and> list_all in_range (snd p)"


definition apu_inv :: "Audio \<Rightarrow> bool" where
  "apu_inv a \<longleftrightarrow>
     length (left_buffer a) = length (right_buffer a) \<and>
     length (left_buffer a) < 1024 \<and>
     list_all in_range (left_buffer a) \<and>
     list_all in_range (right_buffer a) \<and>
     list_all good_call (audio_callback_calls a) \<and>
     (\<not> check_bit (nr52 a) 7 \<longrightarrow> all_channels_disabled a)"

inductive apu_reachable :: "Audio \<Rightarrow> bool" where
  reach_init: "apu_reachable (Audio_init r50 r51 r52)"
| reach_register:
    "apu_reachable a \<Longrightarrow> apu_reachable (Audio_register_audio_callback has_target a)"
| reach_write: "apu_reachable a \<Longrightarrow> apu_reachable (Audio_write_register a address v)"
| reach_tick: "apu_reachable a \<Longrightarrow> apu_reachable (Audio_tick cycles a)"

text \<open>
  The mixing rule in the words of the specification, for one side: the outputs of
  the channels whose panning bit is set are summed, multiplied by the master
  volume (0 to 7) over 7, divided by 4 and clamped to \<open>[-1, 1]\<close>. \<open>spec_clamp\<close> is
  the clamping written out on its own: a value below -1 becomes -1, a value above
  1 becomes 1, and any other value is kept. Neither definition refers to the
  functions taken from \<open>Audio::mix_samples\<close>.
\<close>

definition spec_clamp :: "real \<Rightarrow> real" where
  "spec_clamp x = (if x < - 1 then - 1 else if 1 < x then 1 else x)"

definition spec_mix :: "bool \<Rightarrow> bool \<Rightarrow> bool \<Rightarrow> bool \<Rightarrow> nat \<Rightarrow> real \<Rightarrow> real \<Rightarrow> real \<Rightarrow> real \<Rightarrow> real" where
  "spec_mix p1 p2 p3 p4 vol s1 s2 s3 s4 =
     spec_clamp
       ((((if p1 then s1 else 0) + (if p2 then s2 else 0)
          + (if p3 then s3 else 0) + (if p4 then s4 else 0))
         * (real vol / 7)) / 4)"

text \<open>
  Three states reached by register writes from \<open>Audio_init 0 0 0\<close>: the APU switched
  on through NR52; then both master volumes set to 7, every channel panned to both
  sides and the envelope of channel 1 set to full initial volume; then channel 1
  triggered. The fourth state is not reached by register writes: it is the third
  with the volume of channel 1 at 255 (the registers give at most 15), 1023 samples
  of silence in each buffer and a callback registered, so that the next sample is
  clamped and fills the buffers.
\<close>

definition apu_powered_on :: Audio where
  "apu_powered_on = Audio_write_register (Audio_init 0 0 0) 0xFF26 0x80"

definition apu_armed :: Audio where
  "apu_armed =
     Audio_write_register
       (Audio_write_register
          (Audio_write_register apu_powered_on 0xFF24 0x77)
          0xFF25 0xFF)
       0xFF12 0xF0"

definition apu_triggered :: Audio where
  "apu_triggered = Audio_write_register apu_armed 0xFF14 0x87"


section \<open>The PPU (video/video.h, video/video.cc)\<close>

datatype VideoMode = ACCESS_OAM | ACCESS_VRAM | HBLANK | VBLANK

text \<open>
  Modelled from the spec: the colour types, which \<open>video.cc\<close> takes from headers that
  are not among the sources. \<open>GBColor\<close> is the 2-bit colour index of a tile pixel,
  \<open>Color\<close> one of the four displayed colours White, LightGray, DarkGray and Black,
  and a \<open>Palette\<close> gives the displayed colour of each index. \<open>get_color\<close> below turns
  the number 0 to 3 into the index.
\<close>

datatype GBColor = Color0 | Color1 | Color2 | Color3

datatype Color = White | LightGray | DarkGray | Black

record Palette =
  color0 :: Color
  color1 :: Color
  color2 :: Color
  color3 :: Color

text \<open>
  Modelled from the spec: the constants of \<open>definitions.h\<close>, which is not among the
  sources. The screen is 160 by 144 pixels, background coordinates are taken modulo
  256 and the tile data bases are 0x8000 and 0x8800; the remaining values are those
  of the DMG memory layout (8 by 8 tiles of 16 bytes, tile maps of 32 tiles per row
  at 0x9800 and 0x9C00, 4 bytes per OAM entry).
\<close>

definition GAMEBOY_WIDTH :: nat where "GAMEBOY_WIDTH = 160"
definition GAMEBOY_HEIGHT :: nat where "GAMEBOY_HEIGHT = 144"
definition BG_MAP_SIZE :: nat where "BG_MAP_SIZE = 256"
definition TILE_WIDTH_PX :: nat where "TILE_WIDTH_PX = 8"
definition TILE_HEIGHT_PX :: nat where "TILE_HEIGHT_PX = 8"
definition TILES_PER_LINE :: nat where "TILES_PER_LINE = 32"
definition TILE_BYTES :: nat where "TILE_BYTES = 16"
definition SPRITE_BYTES :: nat where "SPRITE_BYTES = 4"
definition TILE_SET_ZERO_ADDRESS :: u16 where "TILE_SET_ZERO_ADDRESS = 0x8000"
definition TILE_SET_ONE_ADDRESS :: u16 where "TILE_SET_ONE_ADDRESS = 0x8800"
definition TILE_MAP_ZERO_ADDRESS :: u16 where "TILE_MAP_ZERO_ADDRESS = 0x9800"
definition TILE_MAP_ONE_ADDRESS :: u16 where "TILE_MAP_ONE_ADDRESS = 0x9C00"

text \<open>The timing constants at the end of \<open>video.h\<close>.\<close>

definition CLOCKS_PER_HBLANK :: nat where "CLOCKS_PER_HBLANK = 204"
definition CLOCKS_PER_SCANLINE_OAM :: nat where "CLOCKS_PER_SCANLINE_OAM = 80"
definition CLOCKS_PER_SCANLINE_VRAM :: nat where "CLOCKS_PER_SCANLINE_VRAM = 172"
definition CLOCKS_PER_SCANLINE :: nat where
  "CLOCKS_PER_SCANLINE = CLOCKS_PER_SCANLINE_OAM + CLOCKS_PER_SCANLINE_VRAM + CLOCKS_PER_HBLANK"
definition CLOCKS_PER_VBLANK :: nat where "CLOCKS_PER_VBLANK = 4560"
definition SCANLINES_PER_FRAME :: nat where "SCANLINES_PER_FRAME = 144"
definition CLOCKS_PER_FRAME :: nat where
  "CLOCKS_PER_FRAME = CLOCKS_PER_SCANLINE * SCANLINES_PER_FRAME + CLOCKS_PER_VBLANK"

text \<open>
  Modelled from the spec: \<open>FrameBuffer\<close> (\<open>video/framebuffer.h\<close> is not among the
  sources). It is the buffer of colour values of the specification, indexed by
  \<open>(x, y)\<close>: a pixel read returns the colour last written at that position, and
  \<open>reset\<close> blanks the buffer to \<open>White\<close>.
\<close>

type_synonym FrameBuffer = "nat \<times> nat \<Rightarrow> Color"

definition FrameBuffer_set_pixel :: "nat \<Rightarrow> nat \<Rightarrow> Color \<Rightarrow> FrameBuffer \<Rightarrow> FrameBuffer" where
  "FrameBuffer_set_pixel x y c fb = fb((x, y) := c)"

definition FrameBuffer_get_pixel :: "nat \<Rightarrow> nat \<Rightarrow> FrameBuffer \<Rightarrow> Color" where
  "FrameBuffer_get_pixel x y fb = fb (x, y)"

definition FrameBuffer_reset :: "FrameBuffer \<Rightarrow> FrameBuffer" where
  "FrameBuffer_reset fb = (\<lambda>p. White)"

text \<open>
  What \<open>Video\<close> reaches through its back-reference \<open>gb\<close>, apart from the interrupt
  flag: the bus read \<open>gb.mmu.read\<close> and the pixels of a \<open>Tile\<close> built from a pattern
  address and a size multiplier (\<open>mmu.h\<close> and \<open>video/tile.h\<close> are not among the
  sources, so both are parameters).
\<close>

record gb_bus =
  mmu_read :: "u16 \<Rightarrow> u8"
  tile_get_pixel :: "u16 \<Rightarrow> nat \<Rightarrow> nat \<Rightarrow> nat \<Rightarrow> GBColor"

text \<open>
  The registers and private members of \<open>Video\<close> that its functions work on (the raw
  \<open>video_ram\<close> vector behind \<open>Video::read\<close> and \<open>Video::write\<close> is reached through
  the bus and has no field here). \<open>interrupt_flag\<close> is the register
  \<open>gb.cpu.interrupt_flag\<close> that \<open>Video::tick\<close> writes. The member
  \<open>vblank_callback\<close> is a \<open>std::function\<close> that is empty until one is registered:
  \<open>vblank_callback_set\<close> says whether it holds a target, and \<open>vblank_calls\<close> lists
  the frame buffers it has been called with, oldest first.
\<close>

record Video =
  control_byte :: u8
  lcd_control :: u8
  lcd_status :: u8
  scroll_y :: u8
  scroll_x :: u8
  line :: u8
  ly_compare :: u8
  window_y :: u8
  window_x :: u8
  bg_palette :: u8
  sprite_palette_0 :: u8
  sprite_palette_1 :: u8
  dma_transfer :: u8
  debug_disable_background :: bool
  debug_disable_sprites :: bool
  debug_disable_window :: bool
  buffer :: FrameBuffer
  current_mode :: VideoMode
  cycle_counter :: nat
  interrupt_flag :: u8
  vblank_callback_set :: bool
  vblank_calls :: "FrameBuffer list"

definition display_enabled :: "Video \<Rightarrow> bool" where
  "display_enabled v = check_bit (control_byte v) 7"
definition window_tile_map :: "Video \<Rightarrow> bool" where
  "window_tile_map v = check_bit (control_byte v) 6"
definition window_enabled :: "Video \<Rightarrow> bool" where
  "window_enabled v = check_bit (control_byte v) 5"
definition bg_window_tile_data :: "Video \<Rightarrow> bool" where
  "bg_window_tile_data v = check_bit (control_byte v) 4"
definition bg_tile_map_display :: "Video \<Rightarrow> bool" where
  "bg_tile_map_display v = check_bit (control_byte v) 3"
definition sprite_size :: "Video \<Rightarrow> bool" where
  "sprite_size v = check_bit (control_byte v) 2"
definition sprites_enabled :: "Video \<Rightarrow> bool" where
  "sprites_enabled v = check_bit (control_byte v) 1"
definition bg_enabled :: "Video \<Rightarrow> bool" where
  "bg_enabled v = check_bit (control_byte v) 0"

definition get_color :: "nat \<Rightarrow> GBColor" where
  "get_color n = (if n = 0 then Color0 else if n = 1 then Color1
                  else if n = 2 then Color2 else Color3)"

definition get_pixel_from_line :: "u8 \<Rightarrow> u8 \<Rightarrow> nat \<Rightarrow> GBColor" where
  "get_pixel_from_line byte1 byte2 pixel_index =
     get_color ((push_bit 1 (bit_value byte2 (7 - pixel_index))
                 OR bit_value byte1 (7 - pixel_index)) mod 256)"

definition is_on_screen_x :: "u8 \<Rightarrow> bool" where
  "is_on_screen_x x = (unat x < GAMEBOY_WIDTH)"

definition is_on_screen_y :: "u8 \<Rightarrow> bool" where
  "is_on_screen_y y = (unat y < GAMEBOY_HEIGHT)"

definition is_on_screen :: "u8 \<Rightarrow> u8 \<Rightarrow> bool" where
  "is_on_screen x y = (is_on_screen_x x \<and> is_on_screen_y y)"

definition get_original_color_at :: "FrameBuffer \<Rightarrow> u8 \<Rightarrow> u8 \<Rightarrow> GBColor" where
  "get_original_color_at buf x y =
     (let current_color = FrameBuffer_get_pixel (unat x) (unat y) buf
      in if current_color = White then Color0
         else if current_color = LightGray then Color1
         else if current_color = DarkGray then Color2
         else if current_color = Black then Color3
         else Color0)"

definition get_real_color :: "u8 \<Rightarrow> Color" where
  "get_real_color pixel_value =
     (if pixel_value = 0 then White
      else if pixel_value = 1 then LightGray
      else if pixel_value = 2 then DarkGray
      else Black)"

definition load_palette :: "u8 \<Rightarrow> Palette" where
  "load_palette palette_value =
     \<lparr>color0 = get_real_color (palette_value AND 0x03),
      color1 = get_real_color (drop_bit 2 palette_value AND 0x03),
      color2 = get_real_color (drop_bit 4 palette_value AND 0x03),
      color3 = get_real_color (drop_bit 6 palette_value AND 0x03)\<rparr>"

definition get_color_from_palette :: "GBColor \<Rightarrow> Palette \<Rightarrow> Color" where
  "get_color_from_palette c palette =
     (case c of Color0 \<Rightarrow> color0 palette | Color1 \<Rightarrow> color1 palette
              | Color2 \<Rightarrow> color2 palette | Color3 \<Rightarrow> color3 palette)"

text \<open>
  The colour index that \<open>draw_bg_line\<close> and \<open>draw_window_line\<close> compute for one
  pixel before they look it up in the palette. The tile row cache of the source
  only repeats bus reads made earlier in the same call, so it is left out.
\<close>

definition tile_line_pixel :: "gb_bus \<Rightarrow> Video \<Rightarrow> bool \<Rightarrow> nat \<Rightarrow> nat \<Rightarrow> nat \<Rightarrow> nat \<Rightarrow> GBColor" where
  "tile_line_pixel gb v use_tile_map_zero tile_x tile_y tile_pixel_x tile_pixel_y =
     (let use_tile_set_zero = bg_window_tile_data v;
          tile_set_address = (if use_tile_set_zero
                              then TILE_SET_ZERO_ADDRESS else TILE_SET_ONE_ADDRESS);
          tile_map_address = (if use_tile_map_zero
                              then TILE_MAP_ZERO_ADDRESS else TILE_MAP_ONE_ADDRESS);
          tile_index = (tile_y * TILES_PER_LINE + tile_x) mod uint_max;
          tile_id_address = tile_map_address + of_nat tile_index;
          tile_id = mmu_read gb tile_id_address;
          tile_data_mem_offset = (if use_tile_set_zero
                                  then unat tile_id * TILE_BYTES
                                  else nat (sint tile_id + 128) * TILE_BYTES);
          tile_data_line_offset = tile_pixel_y * 2;
          tile_line_data_start_address =
            tile_set_address + of_nat tile_data_mem_offset + of_nat tile_data_line_offset;
          pixels_1 = mmu_read gb tile_line_data_start_address;
          pixels_2 = mmu_read gb (tile_line_data_start_address + 1)
      in get_pixel_from_line pixels_1 pixels_2 tile_pixel_x)"

definition bg_pixel_color :: "gb_bus \<Rightarrow> Video \<Rightarrow> nat \<Rightarrow> nat \<Rightarrow> GBColor" where
  "bg_pixel_color gb v screen_x screen_y =
     (let scrolled_x = screen_x + unat (scroll_x v);
          scrolled_y = screen_y + unat (scroll_y v);
          bg_map_x = scrolled_x mod BG_MAP_SIZE;
          by_map_y = scrolled_y mod BG_MAP_SIZE;
          tile_x = bg_map_x div TILE_WIDTH_PX;
          tile_y = by_map_y div TILE_HEIGHT_PX;
          tile_pixel_x = bg_map_x mod TILE_WIDTH_PX;
          tile_pixel_y = by_map_y mod TILE_HEIGHT_PX
      in tile_line_pixel gb v (\<not> bg_tile_map_display v) tile_x tile_y tile_pixel_x tile_pixel_y)"

definition Video_draw_bg_line :: "gb_bus \<Rightarrow> Video \<Rightarrow> nat \<Rightarrow> FrameBuffer \<Rightarrow> FrameBuffer" where
  "Video_draw_bg_line gb v current_line buf =
     (let palette = load_palette (bg_palette v);
          screen_y = current_line
      in fold (\<lambda>screen_x b.
                 FrameBuffer_set_pixel screen_x screen_y
                   (get_color_from_palette (bg_pixel_color gb v screen_x screen_y) palette) b)
              [0..<GAMEBOY_WIDTH] buf)"

definition window_pixel_color :: "gb_bus \<Rightarrow> Video \<Rightarrow> nat \<Rightarrow> nat \<Rightarrow> GBColor" where
  "window_pixel_color gb v screen_x scrolled_y =
     (let scrolled_x = (screen_x + unat (window_x v) + uint_max - 7) mod uint_max;
          tile_x = scrolled_x div TILE_WIDTH_PX;
          tile_y = scrolled_y div TILE_HEIGHT_PX;
          tile_pixel_x = scrolled_x mod TILE_WIDTH_PX;
          tile_pixel_y = scrolled_y mod TILE_HEIGHT_PX
      in tile_line_pixel gb v (\<not> window_tile_map v) tile_x tile_y tile_pixel_x tile_pixel_y)"

definition Video_draw_window_line :: "gb_bus \<Rightarrow> Video \<Rightarrow> nat \<Rightarrow> FrameBuffer \<Rightarrow> FrameBuffer" where
  "Video_draw_window_line gb v current_line buf =
     (let palette = load_palette (bg_palette v);
          screen_y = current_line;
          scrolled_y = (screen_y + uint_max - unat (window_y v)) mod uint_max
      in if scrolled_y \<ge> GAMEBOY_HEIGHT then buf
         else fold (\<lambda>screen_x b.
                 FrameBuffer_set_pixel screen_x screen_y
                   (get_color_from_palette (window_pixel_color gb v screen_x scrolled_y) palette) b)
              [0..<GAMEBOY_WIDTH] buf)"

text \<open>
  The body of the two nested loops of \<open>draw_sprite\<close> for one tile pixel \<open>(x, y)\<close>.
  \<open>start_x\<close>, \<open>start_y\<close>, \<open>screen_x\<close> and \<open>screen_y\<close> are C++ \<open>int\<close>s, narrowed to
  \<open>u8\<close> where \<open>is_on_screen\<close> and \<open>get_original_color_at\<close> take them.
\<close>

definition sprite_pixel_step ::
  "gb_bus \<Rightarrow> u16 \<Rightarrow> nat \<Rightarrow> bool \<Rightarrow> bool \<Rightarrow> bool \<Rightarrow> Palette \<Rightarrow> int \<Rightarrow> int \<Rightarrow> nat \<Rightarrow> nat
     \<Rightarrow> FrameBuffer \<Rightarrow> FrameBuffer" where
  "sprite_pixel_step gb pattern_address sprite_size_multiplier flip_x flip_y obj_behind_bg
       palette start_x start_y y x buf =
     (let maybe_flipped_y = (if \<not> flip_y then y
                             else TILE_HEIGHT_PX * sprite_size_multiplier - y - 1);
          maybe_flipped_x = (if \<not> flip_x then x else TILE_WIDTH_PX - x - 1);
          gb_color = tile_get_pixel gb pattern_address sprite_size_multiplier
                       maybe_flipped_x maybe_flipped_y
      in if gb_color = Color0 then buf
         else
           let screen_x = start_x + int x;
               screen_y = start_y + int y
           in if \<not> is_on_screen (of_int screen_x) (of_int screen_y) then buf
              else
                let bg_gb_color = get_original_color_at buf (of_int screen_x) (of_int screen_y)
                in if obj_behind_bg \<and> bg_gb_color \<noteq> Color0 then buf
                   else FrameBuffer_set_pixel (nat screen_x) (nat screen_y)
                          (get_color_from_palette gb_color palette) buf)"

definition Video_draw_sprite :: "gb_bus \<Rightarrow> Video \<Rightarrow> nat \<Rightarrow> FrameBuffer \<Rightarrow> FrameBuffer" where
  "Video_draw_sprite gb v sprite_n buf =
     (let offset_in_oam = (of_nat (sprite_n * SPRITE_BYTES) :: u16);
          oam_start = 0xFE00 + offset_in_oam;
          sprite_y = mmu_read gb oam_start;
          sprite_x = mmu_read gb (oam_start + 1)
      in if sprite_y = 0 \<or> sprite_y \<ge> 160 then buf
         else if sprite_x = 0 \<or> sprite_x \<ge> 168 then buf
         else
           let sprite_size_multiplier = (if sprite_size v then 2 else 1);
               tile_set_location = TILE_SET_ZERO_ADDRESS;
               pattern_n = mmu_read gb (oam_start + 2);
               sprite_attrs = mmu_read gb (oam_start + 3);
               use_palette_1 = check_bit sprite_attrs 4;
               flip_x = check_bit sprite_attrs 5;
               flip_y = check_bit sprite_attrs 6;
               obj_behind_bg = check_bit sprite_attrs 7;
               palette = (if use_palette_1 then load_palette (sprite_palette_1 v)
                          else load_palette (sprite_palette_0 v));
               tile_offset = unat pattern_n * TILE_BYTES;
               pattern_address = tile_set_location + of_nat tile_offset;
               start_y = int (unat sprite_y) - 16;
               start_x = int (unat sprite_x) - 8
           in fold (\<lambda>y b.
                 fold (\<lambda>x b'.
                         sprite_pixel_step gb pattern_address sprite_size_multiplier
                           flip_x flip_y obj_behind_bg palette start_x start_y y x b')
                      [0..<TILE_WIDTH_PX] b)
                [0..<TILE_HEIGHT_PX * sprite_size_multiplier] buf)"

definition Video_write_scanline :: "gb_bus \<Rightarrow> Video \<Rightarrow> u8 \<Rightarrow> FrameBuffer \<Rightarrow> FrameBuffer" where
  "Video_write_scanline gb v current_line buf =
     (if \<not> display_enabled v then buf
      else
        let b1 = (if bg_enabled v \<and> \<not> debug_disable_background v
                  then Video_draw_bg_line gb v (unat current_line) buf else buf);
            b2 = (if window_enabled v \<and> \<not> debug_disable_window v
                  then Video_draw_window_line gb v (unat current_line) b1 else b1)
        in b2)"

definition Video_write_sprites :: "gb_bus \<Rightarrow> Video \<Rightarrow> FrameBuffer \<Rightarrow> FrameBuffer" where
  "Video_write_sprites gb v buf =
     (if \<not> sprites_enabled v \<or> debug_disable_sprites v then buf
      else fold (\<lambda>sprite_n b. Video_draw_sprite gb v sprite_n b) [0..<40] buf)"

text \<open>
  \<open>register_vblank_callback\<close> copies its argument into \<open>vblank_callback\<close>; the
  argument \<open>has_target\<close> says whether the \<open>std::function\<close> passed holds a target.
  \<open>draw\<close> calls \<open>vblank_callback\<close> on the frame buffer with no test: the call of an
  empty \<open>std::function\<close> throws.
\<close>

definition Video_register_vblank_callback :: "bool \<Rightarrow> Video \<Rightarrow> Video" where
  "Video_register_vblank_callback has_target v = v\<lparr>vblank_callback_set := has_target\<rparr>"

definition Video_draw :: "Video \<Rightarrow> Video result" where
  "Video_draw v =
     (if vblank_callback_set v
      then Inr (v\<lparr>vblank_calls := vblank_calls v @ [buffer v]\<rparr>)
      else Inl (bad_function_call, v))"

text \<open>
  \<open>Video::tick\<close>. At the end of a frame it calls \<open>write_sprites\<close> and then \<open>draw\<close>; when
  \<open>draw\<close> throws, the statements after it (the buffer reset, the reset of LY and the
  change of mode) are not executed and the exception leaves \<open>tick\<close>.
\<close>

definition Video_tick :: "gb_bus \<Rightarrow> nat \<Rightarrow> Video \<Rightarrow> Video result" where
  "Video_tick gb cycles v0 =
     (let v = v0\<lparr>cycle_counter := (cycle_counter v0 + cycles) mod uint_max\<rparr> in
      case current_mode v of
        ACCESS_OAM \<Rightarrow>
          if cycle_counter v \<ge> CLOCKS_PER_SCANLINE_OAM
          then Inr (v\<lparr>cycle_counter := cycle_counter v mod CLOCKS_PER_SCANLINE_OAM,
                      lcd_status := set_bit_to (set_bit_to (lcd_status v) 1 True) 0 True,
                      current_mode := ACCESS_VRAM\<rparr>)
          else Inr v
      | ACCESS_VRAM \<Rightarrow>
          if cycle_counter v \<ge> CLOCKS_PER_SCANLINE_VRAM
          then
            let hblank_interrupt = check_bit (lcd_status v) 3;
                flag1 = (if hblank_interrupt then set_bit_to (interrupt_flag v) 1 True
                         else interrupt_flag v);
                ly_coincidence_interrupt = check_bit (lcd_status v) 6;
                ly_coincidence = (ly_compare v = line v);
                flag2 = (if ly_coincidence_interrupt \<and> ly_coincidence
                         then set_bit_to flag1 1 True else flag1)
            in Inr (v\<lparr>cycle_counter := cycle_counter v mod CLOCKS_PER_SCANLINE_VRAM,
                      current_mode := HBLANK,
                      interrupt_flag := flag2,
                      lcd_status := set_bit_to (set_bit_to
                                      (set_bit_to (lcd_status v) 2 ly_coincidence) 1 False) 0 False\<rparr>)
          else Inr v
      | HBLANK \<Rightarrow>
          if cycle_counter v \<ge> CLOCKS_PER_HBLANK
          then
            let v1 = v\<lparr>buffer := Video_write_scanline gb v (line v) (buffer v),
                       line := line v + 1,
                       cycle_counter := cycle_counter v mod CLOCKS_PER_HBLANK\<rparr>
            in if line v1 = 144
               then Inr (v1\<lparr>current_mode := VBLANK,
                            lcd_status := set_bit_to (set_bit_to (lcd_status v1) 1 False) 0 True,
                            interrupt_flag := set_bit_to (interrupt_flag v1) 0 True\<rparr>)
               else Inr (v1\<lparr>lcd_status := set_bit_to (set_bit_to (lcd_status v1) 1 True) 0 False,
                            current_mode := ACCESS_OAM\<rparr>)
          else Inr v
      | VBLANK \<Rightarrow>
          if cycle_counter v \<ge> CLOCKS_PER_SCANLINE
          then
            let v1 = v\<lparr>line := line v + 1,
                       cycle_counter := cycle_counter v mod CLOCKS_PER_SCANLINE\<rparr>
            in if line v1 = 154
               then
                 let v2 = v1\<lparr>buffer := Video_write_sprites gb v1 (buffer v1)\<rparr>
                 in case Video_draw v2 of
                      Inl e \<Rightarrow> Inl e
                    | Inr v3 \<Rightarrow>
                        Inr (v3\<lparr>buffer := FrameBuffer_reset (buffer v3),
                                 line := 0,
                                 current_mode := ACCESS_OAM,
                                 lcd_status := set_bit_to (set_bit_to (lcd_status v3) 1 True) 0 False\<rparr>)
               else Inr v1
          else Inr v)"

text \<open>
  A run of ticks, one per CPU instruction, with nothing else touching the PPU. An
  exception ends the run: the ticks after it are not made.
\<close>

fun Video_run :: "gb_bus \<Rightarrow> nat list \<Rightarrow> Video \<Rightarrow> Video result" where
  "Video_run gb [] v = Inr v"
| "Video_run gb (c # cs) v =
     (case Video_tick gb c v of
        Inl e \<Rightarrow> Inl e
      | Inr w \<Rightarrow> Video_run gb cs w)"

text \<open>
  The state in which \<open>Video\<close> starts: the member initialisers of \<open>video.h\<close> give mode
  OAM-scan and cycle counter 0, and LY starts at 0. \<open>control_byte\<close> has no
  initialiser, so nothing is said about it or about the other registers. The
  callback is registered by \<open>Gameboy::run\<close> before the first tick and is empty if
  \<open>tick\<close> is called without that, so \<open>Video_at_reset\<close> leaves \<open>vblank_callback_set\<close>
  open as well.
\<close>

definition Video_at_reset :: "Video \<Rightarrow> bool" where
  "Video_at_reset v \<longleftrightarrow>
     current_mode v = ACCESS_OAM \<and> cycle_counter v = 0 \<and> line v = 0 \<and> vblank_calls v = []"

text \<open>
  The timing of the specification: where the PPU is \<open>t\<close> T-states after reset. A frame
  is 144 lines of 80 + 172 + 204 T-states followed by 10 lines of 456 T-states in
  VBlank. The result is the mode, LY and the T-states already spent in the mode
  (in the current line, for VBlank).
\<close>

definition spec_ppu_at :: "nat \<Rightarrow> VideoMode \<times> nat \<times> nat" where
  "spec_ppu_at t =
     (let p = t mod 70224; ly = p div 456; x = p mod 456
      in if ly < 144
         then (if x < 80 then (ACCESS_OAM, ly, x)
               else if x < 80 + 172 then (ACCESS_VRAM, ly, x - 80)
               else (HBLANK, ly, x - (80 + 172)))
         else (VBLANK, ly, x))"

subsection \<open>Position of the PPU within a frame\<close>

text \<open>
  \<open>ppu_phase\<close> is the number of T-states since the frame began, read off the state:
  456 per completed line, the lengths of the modes already left in this line, and
  the cycle counter. \<open>ppu_time\<close> adds 70224 for every frame handed to the host.
  \<open>ppu_inv\<close> says that the cycle counter is below the length of the current mode
  and that LY is in the range of the mode.
\<close>

definition mode_offset :: "VideoMode \<Rightarrow> nat" where
  "mode_offset m = (case m of ACCESS_OAM \<Rightarrow> 0 | ACCESS_VRAM \<Rightarrow> 80 | HBLANK \<Rightarrow> 252 | VBLANK \<Rightarrow> 0)"

definition ppu_phase :: "Video \<Rightarrow> nat" where
  "ppu_phase v = unat (line v) * 456 + mode_offset (current_mode v) + cycle_counter v"

definition ppu_time :: "Video \<Rightarrow> nat" where
  "ppu_time v = length (vblank_calls v) * 70224 + ppu_phase v"

definition ppu_inv :: "Video \<Rightarrow> bool" where
  "ppu_inv v \<longleftrightarrow>
     (case current_mode v of
        ACCESS_OAM \<Rightarrow> unat (line v) < 144 \<and> cycle_counter v < 80
      | ACCESS_VRAM \<Rightarrow> unat (line v) < 144 \<and> cycle_counter v < 172
      | HBLANK \<Rightarrow> unat (line v) < 144 \<and> cycle_counter v < 204
      | VBLANK \<Rightarrow> 144 \<le> unat (line v) \<and> unat (line v) < 154 \<and> cycle_counter v < 456)"

subsection \<open>Concrete inputs\<close>

text \<open>
  A bus on which OAM entry 0 is a sprite at the top left corner of the screen
  (Y = 16, X = 8) with tile 1 and attribute 0x80 (behind the background), tile 1 is
  solid colour 3 and everything else reads 0; a PPU in its start state with
  LCDC = 0x93 and BGP = OBP0 = 0x1B (the palette that maps index 0 to Black and
  index 3 to White) and a callback registered; the same PPU with LCDC bit 7 clear;
  the same PPU with no callback registered; the same PPU 200 T-states into the
  HBlank of line 143; and a bus that reads 0 everywhere.
\<close>

definition gb_sprite_demo :: gb_bus where
  "gb_sprite_demo =
     \<lparr>mmu_read = (\<lambda>a. if a = 0xFE00 then 16 else if a = 0xFE01 then 8
                      else if a = 0xFE02 then 1 else if a = 0xFE03 then 0x80
                      else if 0x8010 \<le> a \<and> a \<le> 0x801F then 0xFF else 0),
      tile_get_pixel = (\<lambda>a m x y. if a = 0x8010 then Color3 else Color0)\<rparr>"

definition video_demo :: Video where
  "video_demo =
     \<lparr>control_byte = 0x93, lcd_control = 0, lcd_status = 0, scroll_y = 0, scroll_x = 0,
      line = 0, ly_compare = 0, window_y = 0, window_x = 0,
      bg_palette = 0x1B, sprite_palette_0 = 0x1B, sprite_palette_1 = 0, dma_transfer = 0,
      debug_disable_background = False, debug_disable_sprites = False,
      debug_disable_window = False,
      buffer = (\<lambda>p. White), current_mode = ACCESS_OAM, cycle_counter = 0,
      interrupt_flag = 0, vblank_callback_set = True, vblank_calls = []\<rparr>"

definition video_lcd_off :: Video where
  "video_lcd_off = video_demo\<lparr>control_byte := 0x13\<rparr>"

definition video_no_callback :: Video where
  "video_no_callback = Video_register_vblank_callback False video_demo"

definition video_last_hblank :: Video where
  "video_last_hblank = video_demo\<lparr>current_mode := HBLANK, line := 143, cycle_counter := 200\<rparr>"

definition gb_blank :: gb_bus where
  "gb_blank = \<lparr>mmu_read = (\<lambda>a. 0), tile_get_pixel = (\<lambda>a m x y. Color0)\<rparr>"

section \<open>The orchestrator (gameboy.h, gameboy.cc)\<close>

text \<open>
  \<open>Gameboy\<close> holds the PPU, the APU and \<open>elapsed_cycles\<close> (a C++ \<open>uint\<close>, here a
  32-bit word); \<open>others\<close> stands for the members whose classes are not among the
  sources (CPU, MMU, timer, debugger, cartridge). Their member functions are
  parameters: \<open>debugger_cycle\<close>, \<open>cpu_tick\<close> (which returns the cycles of the
  instruction), \<open>timer_tick\<close>, and \<open>bus_of\<close>, the view of the bus that the PPU has.
  \<open>video_tick\<close> and \<open>audio_tick\<close> are the calls \<open>video.tick(cycles)\<close> and
  \<open>audio.tick(cycles.cycles)\<close> on the members. \<open>Gameboy::tick\<close> has no handler, so
  an exception of \<open>video.tick\<close> leaves it before the APU and the timer are ticked.
\<close>

record 'x Gameboy =
  video :: Video
  audio :: Audio
  elapsed_cycles :: "32 word"
  others :: 'x

record 'x gb_parts =
  debugger_cycle :: "'x Gameboy \<Rightarrow> 'x Gameboy"
  cpu_tick :: "'x Gameboy \<Rightarrow> 32 word \<times> 'x Gameboy"
  timer_tick :: "32 word \<Rightarrow> 'x Gameboy \<Rightarrow> 'x Gameboy"
  bus_of :: "'x Gameboy \<Rightarrow> gb_bus"

definition video_tick :: "'x gb_parts \<Rightarrow> 32 word \<Rightarrow> 'x Gameboy \<Rightarrow> 'x Gameboy result" where
  "video_tick P cycles g =
     (case Video_tick (bus_of P g) (unat cycles) (video g) of
        Inl e \<Rightarrow> Inl (fst e, g\<lparr>video := snd e\<rparr>)
      | Inr w \<Rightarrow> Inr (g\<lparr>video := w\<rparr>))"

definition audio_tick :: "32 word \<Rightarrow> 'x Gameboy \<Rightarrow> 'x Gameboy" where
  "audio_tick cycles g = g\<lparr>audio := Audio_tick (unat cycles) (audio g)\<rparr>"

definition Gameboy_tick :: "'x gb_parts \<Rightarrow> 'x Gameboy \<Rightarrow> 'x Gameboy result" where
  "Gameboy_tick P g =
     (let g0 = debugger_cycle P g;
          (cycles, g1) = cpu_tick P g0;
          g2 = g1\<lparr>elapsed_cycles := elapsed_cycles g1 + cycles\<rparr>
      in case video_tick P cycles g2 of
           Inl e \<Rightarrow> Inl e
         | Inr g3 \<Rightarrow>
             let g4 = audio_tick cycles g3;
                 g5 = timer_tick P cycles g4
             in Inr g5)"

text \<open>
  \<open>elapsed_cycles\<close> is a private member of \<open>Gameboy\<close> that only \<open>Gameboy::tick\<close>
  writes in \<open>gameboy.cc\<close>; \<open>parts_keep_elapsed\<close> says that the three parameters leave
  it alone as well.
\<close>

definition parts_keep_elapsed :: "'x gb_parts \<Rightarrow> bool" where
  "parts_keep_elapsed P \<longleftrightarrow>
     (\<forall>g. elapsed_cycles (debugger_cycle P g) = elapsed_cycles g) \<and>
     (\<forall>g. elapsed_cycles (snd (cpu_tick P g)) = elapsed_cycles g) \<and>
     (\<forall>n g. elapsed_cycles (timer_tick P n g) = elapsed_cycles g)"

text \<open>
  Concrete parts: a CPU whose every instruction takes 8 cycles and changes nothing,
  an idle timer and debugger; and a machine with a given value of
  \<open>elapsed_cycles\<close>.
\<close>

definition parts_demo :: "unit gb_parts" where
  "parts_demo =
     \<lparr>debugger_cycle = (\<lambda>g. g), cpu_tick = (\<lambda>g. (8, g)),
      timer_tick = (\<lambda>n g. g), bus_of = (\<lambda>g. gb_blank)\<rparr>"

definition gameboy_demo :: "32 word \<Rightarrow> unit Gameboy" where
  "gameboy_demo e =
     \<lparr>video = video_demo, audio = Audio_init 0 0 0, elapsed_cycles = e, others = ()\<rparr>"

section \<open>Sound channels: disabled channels and triggers\<close>

lemma freq_hi_bound:
  "((f::nat) AND 0xFF) OR push_bit 8 (unat ((v::u8) AND 0x07)) < 2048"
proof -
  have a: "(f AND 0xFF) = take_bit 8 f"
    using take_bit_eq_mask [of 8 f] by (simp add: mask_eq_exp_minus_1)
  have b: "v AND 0x07 = take_bit 3 v"
    using take_bit_eq_mask [of 3 v] by (simp add: mask_eq_exp_minus_1)
  have c: "take_bit 11 (take_bit 8 f OR push_bit 8 (unat (take_bit 3 v)))
             = take_bit 8 f OR push_bit 8 (unat (take_bit 3 v))"
    by (rule bit_eqI)
       (auto simp add: bit_take_bit_iff bit_or_iff bit_push_bit_iff bit_unsigned_iff)
  have "take_bit 11 (take_bit 8 f OR push_bit 8 (unat (take_bit 3 v))) < 2 ^ 11"
    by (rule take_bit_nat_less_exp)
  then show ?thesis unfolding a b c by simp
qed

lemma period_reload_in_range:
  "f < 2048 \<Longrightarrow> 0 < k \<Longrightarrow> period_reload k f = (2048 - f) * k"
  by (simp add: period_reload_def Let_def)

lemma and7_bound: "unat ((r::u8) AND 0x07) < 8"
proof -
  have "r AND 0x07 = take_bit 3 r"
    using take_bit_eq_mask [of 3 r] by (simp add: mask_eq_exp_minus_1)
  then have "unat (r AND 0x07) = take_bit 3 (unat r)"
    by (simp add: unsigned_take_bit_eq)
  also have "\<dots> < 2 ^ 3" by (rule take_bit_nat_less_exp)
  finally show ?thesis by simp
qed

lemma divisors_nonzero: "i < 8 \<Longrightarrow> divisors ! i \<noteq> 0"
proof -
  assume "i < 8"
  then have "i \<in> {0, 1, 2, 3, 4, 5, 6, 7}" by auto
  then show ?thesis by (auto simp add: divisors_def)
qed

lemma noise_period_eq:
  "noise_period r s = (divisors ! unat (r AND 0x07)) * 2 ^ unat (s AND 0x0F)"
  using divisors_nonzero [OF and7_bound, of r]
  by (simp add: noise_period_def Let_def push_bit_eq_mult)

text \<open>
  Claim C9. A sound channel whose \<open>enabled\<close> flag is false is left exactly as it is
  by \<open>tick\<close>, whatever the cycle count (timer, frequency, duty or wave position, LFSR,
  volume and length counter are all fields of the record), and its \<open>get_sample\<close> is
  0. This holds for each of the four channel classes.
\<close>

theorem C9_disabled_channel_frozen:
  "(\<not> enabled c1 \<longrightarrow>
      ToneSweepChannel_tick cycles c1 = c1 \<and> ToneSweepChannel_get_sample c1 = 0) \<and>
   (\<not> enabled c2 \<longrightarrow>
      ToneChannel_tick cycles c2 = c2 \<and> ToneChannel_get_sample c2 = 0) \<and>
   (\<not> enabled c3 \<longrightarrow>
      WaveChannel_tick cycles c3 = c3 \<and> WaveChannel_get_sample c3 = 0) \<and>
   (\<not> enabled c4 \<longrightarrow>
      NoiseChannel_tick cycles c4 = c4 \<and> NoiseChannel_get_sample c4 = 0)"
  by (simp add: ToneSweepChannel_tick_def ToneSweepChannel_get_sample_def
      ToneChannel_tick_def ToneChannel_get_sample_def
      WaveChannel_tick_def WaveChannel_get_sample_def
      NoiseChannel_tick_def NoiseChannel_get_sample_def)

theorem C9_disabled_channel_frozen_witness:
  "\<not> enabled ToneSweepChannel_init \<and> \<not> enabled ToneChannel_init \<and>
   \<not> enabled WaveChannel_init \<and> \<not> enabled NoiseChannel_init \<and>
   ToneSweepChannel_tick 95 ToneSweepChannel_init = ToneSweepChannel_init \<and>
   ToneSweepChannel_get_sample ToneSweepChannel_init = 0 \<and>
   ToneChannel_tick 95 ToneChannel_init = ToneChannel_init \<and>
   ToneChannel_get_sample ToneChannel_init = 0 \<and>
   WaveChannel_tick 95 WaveChannel_init = WaveChannel_init \<and>
   WaveChannel_get_sample WaveChannel_init = 0 \<and>
   NoiseChannel_tick 95 NoiseChannel_init = NoiseChannel_init \<and>
   NoiseChannel_get_sample NoiseChannel_init = 0"
proof -
  have d: "\<not> enabled ToneSweepChannel_init" "\<not> enabled ToneChannel_init"
    "\<not> enabled WaveChannel_init" "\<not> enabled NoiseChannel_init"
    by (simp_all add: ToneSweepChannel_init_def ToneChannel_init_def
        WaveChannel_init_def NoiseChannel_init_def)
  show ?thesis
    using d C9_disabled_channel_frozen
      [of ToneSweepChannel_init 95 ToneChannel_init WaveChannel_init NoiseChannel_init]
    by simp
qed

section \<open>The APU: registers, mixing and buffers\<close>

lemma cps95: "CYCLES_PER_SAMPLE = 95"
  by (simp add: CYCLES_PER_SAMPLE_def CLOCK_RATE_def)

lemma in_range_clamp: "in_range (clamp_sample x)"
  by (simp add: in_range_def clamp_sample_def)

lemma clamp_is_spec_clamp: "clamp_sample x = spec_clamp x"
  by (simp add: clamp_sample_def spec_clamp_def)

lemma apu_inv_init: "apu_inv (Audio_init r50 r51 r52)"
  by (simp add: apu_inv_def Audio_init_def cps95 all_channels_disabled_def
      ToneSweepChannel_init_def ToneChannel_init_def WaveChannel_init_def NoiseChannel_init_def)

lemma apu_inv_register: "apu_inv a \<Longrightarrow> apu_inv (Audio_register_audio_callback b a)"
  by (simp add: apu_inv_def Audio_register_audio_callback_def all_channels_disabled_def)

lemma write_frame:
  "left_buffer (Audio_write_register a address v) = left_buffer a"
  "right_buffer (Audio_write_register a address v) = right_buffer a"
  "sample_counter (Audio_write_register a address v) = sample_counter a"
  "audio_callback_calls (Audio_write_register a address v) = audio_callback_calls a"
  "audio_callback_set (Audio_write_register a address v) = audio_callback_set a"
  by (simp_all add: Audio_write_register_def Let_def
      if_distrib [of left_buffer] if_distrib [of right_buffer] if_distrib [of sample_counter]
      if_distrib [of audio_callback_calls] if_distrib [of audio_callback_set]
      cong: if_cong split del: if_split)

lemma write_nr52_other:
  "address \<noteq> 0xFF26 \<Longrightarrow> nr52 (Audio_write_register a address v) = nr52 a"
  by (simp add: Audio_write_register_def Let_def if_distrib [of nr52]
      cong: if_cong split del: if_split)

lemma write_master_off:
  "\<not> check_bit (nr52 a) 7 \<Longrightarrow> address \<noteq> 0xFF26 \<Longrightarrow>
   Audio_write_register a address v =
     (if 0xFF30 \<le> address \<and> address \<le> 0xFF3F
      then a\<lparr>channel3 := WaveChannel_set_wave_pattern (ucast (address - 0xFF30)) v (channel3 a)\<rparr>
      else a)"
  by (simp add: Audio_write_register_def Let_def split del: if_split)

lemma write_nr52:
  "Audio_write_register a 0xFF26 v =
     (let a1 = a\<lparr>nr52 := (v AND 0x80) OR (nr52 a AND 0x0F) OR 0x70\<rparr>
      in if check_bit (nr52 a) 7 \<and> \<not> check_bit (nr52 a1) 7
         then a1\<lparr>channel1 := set_enabled False (channel1 a1),
                 channel2 := set_enabled False (channel2 a1),
                 channel3 := set_enabled False (channel3 a1),
                 channel4 := set_enabled False (channel4 a1)\<rparr>
         else a1)"
  by (simp add: Audio_write_register_def Let_def split del: if_split)

lemma write_off_enabled:
  "\<not> check_bit (nr52 a) 7 \<Longrightarrow> address \<noteq> 0xFF26 \<Longrightarrow>
   all_channels_disabled (Audio_write_register a address v) = all_channels_disabled a"
  by (simp add: write_master_off all_channels_disabled_def WaveChannel_set_wave_pattern_def)

lemma write_nr52_silent:
  "(\<not> check_bit (nr52 a) 7 \<longrightarrow> all_channels_disabled a) \<Longrightarrow>
   \<not> check_bit (nr52 (Audio_write_register a 0xFF26 v)) 7 \<Longrightarrow>
   all_channels_disabled (Audio_write_register a 0xFF26 v)"
  by (auto simp add: write_nr52 Let_def all_channels_disabled_def set_enabled_def
      split: if_splits)

lemma apu_inv_write: 
  assumes "apu_inv a" shows "apu_inv (Audio_write_register a address v)"
proof -
  have s: "\<not> check_bit (nr52 (Audio_write_register a address v)) 7 \<longrightarrow>
      all_channels_disabled (Audio_write_register a address v)"
  proof (cases "address = 0xFF26")
    case True
    with assms show ?thesis using write_nr52_silent [of a v] by (simp add: apu_inv_def)
  next
    case False
    with assms show ?thesis
      using write_off_enabled [of a address v] write_nr52_other [of address a v]
      by (auto simp add: apu_inv_def)
  qed
  with assms show ?thesis by (simp add: apu_inv_def write_frame)
qed

lemma mix_of_spec:
  "clamp_sample (mix_of p4 p3 p2 p1 s1 s2 s3 s4 vol)
   = spec_mix p1 p2 p3 p4 (unat vol) s1 s2 s3 s4"
  by (simp add: mix_of_def spec_mix_def Let_def ac_simps clamp_is_spec_clamp)

lemma spec_mix_silent: "spec_mix p1 p2 p3 p4 vol 0 0 0 0 = 0"
  by (simp add: spec_mix_def spec_clamp_def)

lemma disabled_samples:
  "all_channels_disabled a \<Longrightarrow>
   ToneSweepChannel_get_sample (channel1 a) = 0 \<and> ToneChannel_get_sample (channel2 a) = 0 \<and>
   WaveChannel_get_sample (channel3 a) = 0 \<and> NoiseChannel_get_sample (channel4 a) = 0"
  by (simp add: all_channels_disabled_def ToneSweepChannel_get_sample_def
      ToneChannel_get_sample_def WaveChannel_get_sample_def NoiseChannel_get_sample_def)

lemma mix_samples_left:
  assumes "\<not> check_bit (nr52 a) 7 \<longrightarrow> all_channels_disabled a"
  shows "left_buffer (Audio_mix_samples a) = left_buffer a @
     [spec_mix (bit (nr51 a) 4) (bit (nr51 a) 5) (bit (nr51 a) 6) (bit (nr51 a) 7)
        (unat (drop_bit 4 (nr50 a) AND 0x7))
        (ToneSweepChannel_get_sample (channel1 a)) (ToneChannel_get_sample (channel2 a))
        (WaveChannel_get_sample (channel3 a)) (NoiseChannel_get_sample (channel4 a))]"
proof (cases "check_bit (nr52 a) 7")
  case True
  then have "Audio_mix_samples a = a\<lparr>left_buffer := left_buffer a @
       [spec_mix (bit (nr51 a) 4) (bit (nr51 a) 5) (bit (nr51 a) 6) (bit (nr51 a) 7)
          (unat (drop_bit 4 (nr50 a) AND 0x7))
          (ToneSweepChannel_get_sample (channel1 a)) (ToneChannel_get_sample (channel2 a))
          (WaveChannel_get_sample (channel3 a)) (NoiseChannel_get_sample (channel4 a))],
      right_buffer := right_buffer a @
       [spec_mix (bit (nr51 a) 0) (bit (nr51 a) 1) (bit (nr51 a) 2) (bit (nr51 a) 3)
          (unat (nr50 a AND 0x7))
          (ToneSweepChannel_get_sample (channel1 a)) (ToneChannel_get_sample (channel2 a))
          (WaveChannel_get_sample (channel3 a)) (NoiseChannel_get_sample (channel4 a))]\<rparr>"
    unfolding Audio_mix_samples_def Let_def check_bit_def
    by (simp only: if_not_P if_P not_not mix_of_spec)
  then show ?thesis by simp
next
  case False
  with assms have "all_channels_disabled a" by simp
  from disabled_samples [OF this] False show ?thesis
    by (simp add: Audio_mix_samples_def spec_mix_silent)
qed

lemma mix_samples_right:
  assumes "\<not> check_bit (nr52 a) 7 \<longrightarrow> all_channels_disabled a"
  shows "right_buffer (Audio_mix_samples a) = right_buffer a @
     [spec_mix (bit (nr51 a) 0) (bit (nr51 a) 1) (bit (nr51 a) 2) (bit (nr51 a) 3)
        (unat (nr50 a AND 0x7))
        (ToneSweepChannel_get_sample (channel1 a)) (ToneChannel_get_sample (channel2 a))
        (WaveChannel_get_sample (channel3 a)) (NoiseChannel_get_sample (channel4 a))]"
proof (cases "check_bit (nr52 a) 7")
  case True
  then have "Audio_mix_samples a = a\<lparr>left_buffer := left_buffer a @
       [spec_mix (bit (nr51 a) 4) (bit (nr51 a) 5) (bit (nr51 a) 6) (bit (nr51 a) 7)
          (unat (drop_bit 4 (nr50 a) AND 0x7))
          (ToneSweepChannel_get_sample (channel1 a)) (ToneChannel_get_sample (channel2 a))
          (WaveChannel_get_sample (channel3 a)) (NoiseChannel_get_sample (channel4 a))],
      right_buffer := right_buffer a @
       [spec_mix (bit (nr51 a) 0) (bit (nr51 a) 1) (bit (nr51 a) 2) (bit (nr51 a) 3)
          (unat (nr50 a AND 0x7))
          (ToneSweepChannel_get_sample (channel1 a)) (ToneChannel_get_sample (channel2 a))
          (WaveChannel_get_sample (channel3 a)) (NoiseChannel_get_sample (channel4 a))]\<rparr>"
    unfolding Audio_mix_samples_def Let_def check_bit_def
    by (simp only: if_not_P if_P not_not mix_of_spec)
  then show ?thesis by simp
next
  case False
  with assms have "all_channels_disabled a" by simp
  from disabled_samples [OF this] False show ?thesis
    by (simp add: Audio_mix_samples_def spec_mix_silent)
qed

lemma in_range_spec_mix: "in_range (spec_mix p1 p2 p3 p4 vol s1 s2 s3 s4)"
  by (simp add: spec_mix_def in_range_clamp flip: clamp_is_spec_clamp)

lemma mix_samples_frame:
  "nr50 (Audio_mix_samples a) = nr50 a"
  "nr51 (Audio_mix_samples a) = nr51 a"
  "nr52 (Audio_mix_samples a) = nr52 a"
  "channel1 (Audio_mix_samples a) = channel1 a"
  "channel2 (Audio_mix_samples a) = channel2 a"
  "channel3 (Audio_mix_samples a) = channel3 a"
  "channel4 (Audio_mix_samples a) = channel4 a"
  "audio_callback_set (Audio_mix_samples a) = audio_callback_set a"
  "audio_callback_calls (Audio_mix_samples a) = audio_callback_calls a"
  by (simp_all add: Audio_mix_samples_def Let_def)

lemma mix_samples_lengths:
  "length (left_buffer (Audio_mix_samples a)) = Suc (length (left_buffer a))"
  "length (right_buffer (Audio_mix_samples a)) = Suc (length (right_buffer a))"
  by (simp_all add: Audio_mix_samples_def Let_def)

lemma apu_inv_sample_counter:
  "apu_inv (a\<lparr>sample_counter := n\<rparr>) = apu_inv a"
  by (simp add: apu_inv_def all_channels_disabled_def)

lemma apu_inv_sample_step:
  assumes "apu_inv a" shows "apu_inv (Audio_sample_step a)"
proof -
  let ?a1 = "a\<lparr>sample_counter := sample_counter a - CYCLES_PER_SAMPLE\<rparr>"
  let ?m = "Audio_mix_samples ?a1"
  from assms have i1: "apu_inv ?a1" by (simp add: apu_inv_sample_counter)
  then have off: "\<not> check_bit (nr52 ?a1) 7 \<longrightarrow> all_channels_disabled ?a1"
    by (simp add: apu_inv_def)
  have l: "list_all in_range (left_buffer ?m)"
    using i1 mix_samples_left [OF off] by (simp add: apu_inv_def in_range_spec_mix)
  have r: "list_all in_range (right_buffer ?m)"
    using i1 mix_samples_right [OF off] by (simp add: apu_inv_def in_range_spec_mix)
  have len: "length (left_buffer ?m) = length (right_buffer ?m)"
    "length (left_buffer ?m) \<le> 1024"
    using i1 by (simp_all add: mix_samples_lengths apu_inv_def)
  have rest: "list_all good_call (audio_callback_calls ?m)"
    "\<not> check_bit (nr52 ?m) 7 \<longrightarrow> all_channels_disabled ?m"
    using i1 by (simp_all add: mix_samples_frame apu_inv_def all_channels_disabled_def)
  show ?thesis
  proof (cases "length (left_buffer ?m) \<ge> 1024")
    case True
    with len have "good_call (left_buffer ?m, right_buffer ?m)"
      using l r by (simp add: good_call_def)
    with True rest show ?thesis
      by (simp add: Audio_sample_step_def Let_def apu_inv_def all_channels_disabled_def)
  next
    case False
    with len l r rest show ?thesis
      by (simp add: Audio_sample_step_def Let_def apu_inv_def)
  qed
qed

lemma apu_inv_funpow: "apu_inv a \<Longrightarrow> apu_inv ((Audio_sample_step ^^ n) a)"
  by (induction n) (simp_all add: apu_inv_sample_step)

lemma sample_loop_funpow:
  "Audio_sample_loop a = (Audio_sample_step ^^ (sample_counter a div CYCLES_PER_SAMPLE)) a"
proof (induction a rule: Audio_sample_loop.induct)
  case (1 a)
  show ?case
  proof (cases "sample_counter a \<ge> CYCLES_PER_SAMPLE")
    case True
    have pos: "0 < CYCLES_PER_SAMPLE" by (simp add: cps95)
    from True pos have d: "sample_counter a div CYCLES_PER_SAMPLE
        = Suc ((sample_counter a - CYCLES_PER_SAMPLE) div CYCLES_PER_SAMPLE)"
      by (simp add: le_div_geq)
    have "Audio_sample_loop a = Audio_sample_loop (Audio_sample_step a)"
      using True by (subst Audio_sample_loop.simps) simp
    also have "\<dots> = (Audio_sample_step ^^ ((sample_counter a - CYCLES_PER_SAMPLE) div CYCLES_PER_SAMPLE))
        (Audio_sample_step a)"
      using "1.IH" [OF True] by (simp add: sample_counter_sample_step)
    also have "\<dots> = (Audio_sample_step ^^ (sample_counter a div CYCLES_PER_SAMPLE)) a"
      unfolding d by (simp add: funpow_swap1)
    finally show ?thesis .
  next
    case False
    then have "Audio_sample_loop a = a"
      by (subst Audio_sample_loop.simps) simp
    with False show ?thesis by simp
  qed
qed

lemma sample_counter_funpow:
  "n * CYCLES_PER_SAMPLE \<le> sample_counter a \<Longrightarrow>
   sample_counter ((Audio_sample_step ^^ n) a) = sample_counter a - n * CYCLES_PER_SAMPLE"
  by (induction n) (simp_all add: sample_counter_sample_step)

lemma sample_counter_loop:
  "sample_counter (Audio_sample_loop a) = sample_counter a mod CYCLES_PER_SAMPLE"
proof -
  have "sample_counter a div CYCLES_PER_SAMPLE * CYCLES_PER_SAMPLE \<le> sample_counter a"
    by simp
  from sample_counter_funpow [OF this] show ?thesis
    by (simp add: sample_loop_funpow minus_div_mult_eq_mod)
qed

lemma channel_tick_enabled:
  "enabled (ToneSweepChannel_tick n c1) = enabled c1"
  "enabled (ToneChannel_tick n c2) = enabled c2"
  "enabled (WaveChannel_tick n c3) = enabled c3"
  "enabled (NoiseChannel_tick n c4) = enabled c4"
  by (simp_all add: ToneSweepChannel_tick_def ToneChannel_tick_def WaveChannel_tick_def
      NoiseChannel_tick_def Let_def)

lemma apu_inv_tick_channels: "apu_inv a \<Longrightarrow> apu_inv (tick_channels cycles a)"
  by (simp add: apu_inv_def tick_channels_def all_channels_disabled_def channel_tick_enabled)

lemma Audio_tick_funpow:
  "Audio_tick cycles a =
     (Audio_sample_step ^^ (((sample_counter a + cycles) mod uint_max) div CYCLES_PER_SAMPLE))
       (tick_channels cycles a)"
  by (simp add: Audio_tick_def sample_loop_funpow tick_channels_def)

lemma apu_inv_tick: "apu_inv a \<Longrightarrow> apu_inv (Audio_tick cycles a)"
  by (simp add: Audio_tick_funpow apu_inv_funpow apu_inv_tick_channels)

lemma apu_reachable_inv: "apu_reachable a \<Longrightarrow> apu_inv a"
  by (induction rule: apu_reachable.induct)
     (simp_all add: apu_inv_init apu_inv_register apu_inv_write apu_inv_tick)

lemma wave_index:
  assumes "0xFF30 \<le> (address::u16)" "address \<le> 0xFF3F"
  shows "unat (ucast (address - 0xFF30) :: u8) = unat address - 0xFF30"
    and "unat address - 0xFF30 < (16::nat)"
proof -
  from assms have l: "0xFF30 \<le> unat address" and u: "unat address \<le> 0xFF3F"
    by (simp_all add: word_le_nat_alt)
  from assms(1) have s: "unat (address - 0xFF30) = unat address - 0xFF30"
    by (simp add: unat_sub)
  from u show "unat address - 0xFF30 < (16::nat)" by simp
  with s show "unat (ucast (address - 0xFF30) :: u8) = unat address - 0xFF30"
    by (simp add: unsigned_ucast_eq take_bit_nat_eq_self)
qed

lemma read_nr52:
  "Audio_read_register a 0xFF26 =
     (nr52 a AND 0x80) OR 0x70
       OR (if enabled (channel1 a) then 0x01 else 0)
       OR (if enabled (channel2 a) then 0x02 else 0)
       OR (if enabled (channel3 a) then 0x04 else 0)
       OR (if enabled (channel4 a) then 0x08 else 0)"
  by (simp add: Audio_read_register_def Let_def or.assoc)

lemma status_bits:
  fixes r :: u8
  shows "bit ((r AND 0x80) OR 0x70 OR (if e1 then 0x01 else 0) OR (if e2 then 0x02 else 0)
           OR (if e3 then 0x04 else 0) OR (if e4 then 0x08 else 0)) 7 = bit r 7"
    and "bit ((r AND 0x80) OR 0x70 OR (if e1 then 0x01 else 0) OR (if e2 then 0x02 else 0)
           OR (if e3 then 0x04 else 0) OR (if e4 then 0x08 else 0)) 0 = e1"
    and "bit ((r AND 0x80) OR 0x70 OR (if e1 then 0x01 else 0) OR (if e2 then 0x02 else 0)
           OR (if e3 then 0x04 else 0) OR (if e4 then 0x08 else 0)) 1 = e2"
    and "bit ((r AND 0x80) OR 0x70 OR (if e1 then 0x01 else 0) OR (if e2 then 0x02 else 0)
           OR (if e3 then 0x04 else 0) OR (if e4 then 0x08 else 0)) 2 = e3"
    and "bit ((r AND 0x80) OR 0x70 OR (if e1 then 0x01 else 0) OR (if e2 then 0x02 else 0)
           OR (if e3 then 0x04 else 0) OR (if e4 then 0x08 else 0)) 3 = e4"
  by (simp_all add: bit_or_iff bit_and_iff)

lemma nr52_written_bit7:
  fixes v r :: u8
  shows "bit ((v AND 0x80) OR (r AND 0x0F) OR 0x70) 7 = bit v 7"
  by (simp add: bit_or_iff bit_and_iff)

text \<open>
  Claim C6. While NR52 bit 7 is 0, a write to any address other than 0xFF26 and the
  wave RAM 0xFF30 to 0xFF3F returns the APU state unchanged; a write to the wave RAM
  stores the value in the pattern byte of that address and a write to 0xFF26 stores
  bit 7 of the value as the master enable (bits 4 to 6 are set, the low nibble is
  kept). A read of 0xFF26, in any state, has bit 7 equal to the master enable and
  bits 0 to 3 equal to the \<open>enabled\<close> flags of channels 1 to 4.
\<close>

theorem C6_master_disabled_writes:
  "(\<not> check_bit (nr52 a) 7 \<and> address \<noteq> 0xFF26 \<and> \<not> (0xFF30 \<le> address \<and> address \<le> 0xFF3F)
      \<longrightarrow> Audio_write_register a address v = a)
   \<and> (\<not> check_bit (nr52 a) 7 \<and> 0xFF30 \<le> address \<and> address \<le> 0xFF3F
      \<longrightarrow> Audio_write_register a address v
          = a\<lparr>channel3 := (channel3 a)\<lparr>wave_pattern :=
                (wave_pattern (channel3 a))[unat address - 0xFF30 := v]\<rparr>\<rparr>)
   \<and> (\<not> check_bit (nr52 a) 7
      \<longrightarrow> Audio_write_register a 0xFF26 v
            = a\<lparr>nr52 := (v AND 0x80) OR (nr52 a AND 0x0F) OR 0x70\<rparr>
        \<and> check_bit (nr52 (Audio_write_register a 0xFF26 v)) 7 = check_bit v 7)
   \<and> check_bit (Audio_read_register a 0xFF26) 7 = check_bit (nr52 a) 7
   \<and> check_bit (Audio_read_register a 0xFF26) 0 = enabled (channel1 a)
   \<and> check_bit (Audio_read_register a 0xFF26) 1 = enabled (channel2 a)
   \<and> check_bit (Audio_read_register a 0xFF26) 2 = enabled (channel3 a)
   \<and> check_bit (Audio_read_register a 0xFF26) 3 = enabled (channel4 a)"
proof -
  have ignored: "\<not> check_bit (nr52 a) 7 \<and> address \<noteq> 0xFF26
      \<and> \<not> (0xFF30 \<le> address \<and> address \<le> 0xFF3F)
      \<longrightarrow> Audio_write_register a address v = a"
    by (simp add: write_master_off)
  have wave: "\<not> check_bit (nr52 a) 7 \<and> 0xFF30 \<le> address \<and> address \<le> 0xFF3F
      \<longrightarrow> Audio_write_register a address v
          = a\<lparr>channel3 := (channel3 a)\<lparr>wave_pattern :=
                (wave_pattern (channel3 a))[unat address - 0xFF30 := v]\<rparr>\<rparr>"
  proof (intro impI, elim conjE)
    assume off: "\<not> check_bit (nr52 a) 7" and lo: "0xFF30 \<le> address" and hi: "address \<le> 0xFF3F"
    from lo have ne: "address \<noteq> 0xFF26" by auto
    from off ne lo hi wave_index [OF lo hi] show "Audio_write_register a address v
          = a\<lparr>channel3 := (channel3 a)\<lparr>wave_pattern :=
                (wave_pattern (channel3 a))[unat address - 0xFF30 := v]\<rparr>\<rparr>"
      by (simp add: write_master_off WaveChannel_set_wave_pattern_def)
  qed
  have master: "\<not> check_bit (nr52 a) 7
      \<longrightarrow> Audio_write_register a 0xFF26 v
            = a\<lparr>nr52 := (v AND 0x80) OR (nr52 a AND 0x0F) OR 0x70\<rparr>
        \<and> check_bit (nr52 (Audio_write_register a 0xFF26 v)) 7 = check_bit v 7"
    by (simp add: write_nr52 Let_def check_bit_def nr52_written_bit7)
  have status: "check_bit (Audio_read_register a 0xFF26) 7 = check_bit (nr52 a) 7"
    "check_bit (Audio_read_register a 0xFF26) 0 = enabled (channel1 a)"
    "check_bit (Audio_read_register a 0xFF26) 1 = enabled (channel2 a)"
    "check_bit (Audio_read_register a 0xFF26) 2 = enabled (channel3 a)"
    "check_bit (Audio_read_register a 0xFF26) 3 = enabled (channel4 a)"
    unfolding read_nr52 check_bit_def by (rule status_bits)+
  from ignored wave master status show ?thesis by blast
qed

lemma apu_powered_on_eq: "apu_powered_on = (Audio_init 0 0 0)\<lparr>nr52 := 0xF0\<rparr>"
  by (simp add: apu_powered_on_def write_nr52 Let_def Audio_init_def check_bit_def)

lemma write_on:
  assumes "check_bit (nr52 a) 7"
  shows "Audio_write_register a 0xFF24 v = a\<lparr>nr50 := v\<rparr>"
    and "Audio_write_register a 0xFF25 v = a\<lparr>nr51 := v\<rparr>"
    and "Audio_write_register a 0xFF12 v
           = a\<lparr>channel1 := ToneSweepChannel_set_volume_envelope_register v (channel1 a)\<rparr>"
    and "Audio_write_register a 0xFF14 v
           = a\<lparr>channel1 := ToneSweepChannel_set_frequency_hi_register v (channel1 a)\<rparr>"
    and "Audio_write_register a 0xFF19 v
           = a\<lparr>channel2 := ToneChannel_set_frequency_hi_register v (channel2 a)\<rparr>"
    and "Audio_write_register a 0xFF1E v
           = a\<lparr>channel3 := WaveChannel_set_frequency_hi_register v (channel3 a)\<rparr>"
    and "Audio_write_register a 0xFF23 v
           = a\<lparr>channel4 := NoiseChannel_set_counter_register v (channel4 a)\<rparr>"
  using assms by (simp_all add: Audio_write_register_def Let_def split del: if_split)

lemma apu_triggered_fields:
  "nr50 apu_triggered = 0x77" "nr51 apu_triggered = 0xFF" "nr52 apu_triggered = 0xF0"
  "enabled (channel1 apu_triggered)" "volume (channel1 apu_triggered) = 0x0F"
  "ts_duty_pattern (channel1 apu_triggered) = 0" "ts_duty_position (channel1 apu_triggered) = 0"
  "\<not> enabled (channel2 apu_triggered)" "\<not> enabled (channel3 apu_triggered)"
  "\<not> enabled (channel4 apu_triggered)" "left_buffer apu_triggered = []"
  "right_buffer apu_triggered = []" "sample_counter apu_triggered = 0"
  "audio_callback_calls apu_triggered = []" "ts_timer (channel1 apu_triggered) = 1024"
  by (simp_all add: apu_triggered_def apu_armed_def apu_powered_on_eq write_on check_bit_def
      period_reload_def
      ToneSweepChannel_set_volume_envelope_register_def
      ToneSweepChannel_set_frequency_hi_register_def Let_def
      Audio_init_def ToneSweepChannel_init_def ToneChannel_init_def
      WaveChannel_init_def NoiseChannel_init_def)

lemma apu_triggered_reachable: "apu_reachable apu_triggered"
  unfolding apu_triggered_def apu_armed_def apu_powered_on_def
  by (intro reach_write reach_init)

theorem C6_master_disabled_writes_witness:
  "\<not> check_bit (nr52 (Audio_init 0 0 0)) 7
   \<and> Audio_write_register (Audio_init 0 0 0) 0xFF12 0xF0 = Audio_init 0 0 0
   \<and> wave_pattern (channel3 (Audio_write_register (Audio_init 0 0 0) 0xFF31 0xAB)) ! 1 = 0xAB
   \<and> check_bit (nr52 (Audio_write_register (Audio_init 0 0 0) 0xFF26 0x80)) 7
   \<and> \<not> check_bit (Audio_read_register (Audio_init 0 0 0) 0xFF26) 7
   \<and> \<not> check_bit (Audio_read_register (Audio_init 0 0 0) 0xFF26) 0"
proof -
  have off: "\<not> check_bit (nr52 (Audio_init 0 0 0)) 7"
    by (simp add: Audio_init_def check_bit_def)
  show ?thesis
    using off
      C6_master_disabled_writes [of "Audio_init 0 0 0" "0xFF12" "0xF0"]
      C6_master_disabled_writes [of "Audio_init 0 0 0" "0xFF31" "0xAB"]
      C6_master_disabled_writes [of "Audio_init 0 0 0" "0xFF31" "0x80"]
    by (simp add: Audio_init_def WaveChannel_init_def ToneSweepChannel_init_def check_bit_def)
qed

lemma apu_armed_fields:
  "nr52 apu_armed = 0xF0" "ts_frequency (channel1 apu_armed) = 0"
  "ts_envelope_initial_volume (channel1 apu_armed) = 0x0F"
  "length_counter (channel1 apu_armed) = 0"
  "channel2 apu_armed = ToneChannel_init" "channel3 apu_armed = WaveChannel_init"
  "channel4 apu_armed = NoiseChannel_init"
  by (simp_all add: apu_armed_def apu_powered_on_eq write_on check_bit_def
      ToneSweepChannel_set_volume_envelope_register_def
      Audio_init_def ToneSweepChannel_init_def)

text \<open>
  Claim C7. A register write reaches a channel only through
  \<open>Audio::write_register\<close>, which passes it on while the master enable (NR52 bit 7)
  is on. With the master enable on, writing a value with bit 7 set to NR14
  (0xFF14), NR24 (0xFF19), NR34 (0xFF1E) or NR44 (0xFF23) triggers the channel: it
  becomes enabled; the period timer is reloaded from the frequency that the same
  write has just completed, \<open>(2048 - frequency) * 4\<close> for the square channels and
  \<open>(2048 - frequency) * 2\<close> for the wave channel, and from \<open>divisors[ratio] << shift\<close>
  for the noise channel; the volume of channels 1, 2 and 4 becomes the initial
  envelope volume (the wave channel has no envelope); the length counter is
  reloaded only if it was 0, with 64 for channels 1, 2 and 4 and 256 for channel 3;
  the duty position (channels 1 and 2) and the wave position (channel 3) become 0
  and the LFSR (channel 4) becomes 0x7FFF.
\<close>

theorem C7_trigger:
  assumes "check_bit (nr52 a) 7" and "check_bit v 7"
  shows "(enabled (channel1 (Audio_write_register a 0xFF14 v))
       \<and> ts_frequency (channel1 (Audio_write_register a 0xFF14 v))
           = (ts_frequency (channel1 a) AND 0xFF) OR push_bit 8 (unat (v AND 0x07))
       \<and> ts_timer (channel1 (Audio_write_register a 0xFF14 v))
           = (2048 - ts_frequency (channel1 (Audio_write_register a 0xFF14 v))) * 4
       \<and> volume (channel1 (Audio_write_register a 0xFF14 v))
           = ts_envelope_initial_volume (channel1 a)
       \<and> length_counter (channel1 (Audio_write_register a 0xFF14 v))
           = (if length_counter (channel1 a) = 0 then 64 else length_counter (channel1 a))
       \<and> ts_duty_position (channel1 (Audio_write_register a 0xFF14 v)) = 0)
    \<and> (enabled (channel2 (Audio_write_register a 0xFF19 v))
       \<and> tn_frequency (channel2 (Audio_write_register a 0xFF19 v))
           = (tn_frequency (channel2 a) AND 0xFF) OR push_bit 8 (unat (v AND 0x07))
       \<and> tn_timer (channel2 (Audio_write_register a 0xFF19 v))
           = (2048 - tn_frequency (channel2 (Audio_write_register a 0xFF19 v))) * 4
       \<and> volume (channel2 (Audio_write_register a 0xFF19 v))
           = tn_envelope_initial_volume (channel2 a)
       \<and> length_counter (channel2 (Audio_write_register a 0xFF19 v))
           = (if length_counter (channel2 a) = 0 then 64 else length_counter (channel2 a))
       \<and> tn_duty_position (channel2 (Audio_write_register a 0xFF19 v)) = 0)
    \<and> (enabled (channel3 (Audio_write_register a 0xFF1E v))
       \<and> wv_frequency (channel3 (Audio_write_register a 0xFF1E v))
           = (wv_frequency (channel3 a) AND 0xFF) OR push_bit 8 (unat (v AND 0x07))
       \<and> wv_timer (channel3 (Audio_write_register a 0xFF1E v))
           = (2048 - wv_frequency (channel3 (Audio_write_register a 0xFF1E v))) * 2
       \<and> length_counter (channel3 (Audio_write_register a 0xFF1E v))
           = (if length_counter (channel3 a) = 0 then 256 else length_counter (channel3 a))
       \<and> wv_position (channel3 (Audio_write_register a 0xFF1E v)) = 0)
    \<and> (enabled (channel4 (Audio_write_register a 0xFF23 v))
       \<and> ns_timer (channel4 (Audio_write_register a 0xFF23 v))
           = (divisors ! unat (dividing_ratio (channel4 a) AND 0x07))
               * 2 ^ unat (shift_clock_frequency (channel4 a) AND 0x0F)
       \<and> volume (channel4 (Audio_write_register a 0xFF23 v))
           = ns_envelope_initial_volume (channel4 a)
       \<and> length_counter (channel4 (Audio_write_register a 0xFF23 v))
           = (if length_counter (channel4 a) = 0 then 64 else length_counter (channel4 a))
       \<and> lfsr (channel4 (Audio_write_register a 0xFF23 v)) = 0x7FFF)"
  using assms(2)
  by (simp add: write_on(4-7) [OF assms(1)]
      ToneSweepChannel_set_frequency_hi_register_def
      ToneChannel_set_frequency_hi_register_def
      WaveChannel_set_frequency_hi_register_def
      NoiseChannel_set_counter_register_def Let_def
      period_reload_in_range freq_hi_bound noise_period_eq)

theorem C7_trigger_witness:
  "check_bit (nr52 apu_armed) 7
   \<and> check_bit 0x87 7
   \<and> enabled (channel1 (Audio_write_register apu_armed 0xFF14 0x87))
   \<and> ts_timer (channel1 (Audio_write_register apu_armed 0xFF14 0x87)) = 1024
   \<and> volume (channel1 (Audio_write_register apu_armed 0xFF14 0x87)) = 15
   \<and> length_counter (channel1 (Audio_write_register apu_armed 0xFF14 0x87)) = 64
   \<and> enabled (channel2 (Audio_write_register apu_armed 0xFF19 0x87))
   \<and> tn_timer (channel2 (Audio_write_register apu_armed 0xFF19 0x87)) = 1024
   \<and> enabled (channel3 (Audio_write_register apu_armed 0xFF1E 0x87))
   \<and> wv_timer (channel3 (Audio_write_register apu_armed 0xFF1E 0x87)) = 512
   \<and> length_counter (channel3 (Audio_write_register apu_armed 0xFF1E 0x87)) = 256
   \<and> enabled (channel4 (Audio_write_register apu_armed 0xFF23 0x87))
   \<and> ns_timer (channel4 (Audio_write_register apu_armed 0xFF23 0x87)) = 8
   \<and> lfsr (channel4 (Audio_write_register apu_armed 0xFF23 0x87)) = 0x7FFF"
proof -
  have on: "check_bit (nr52 apu_armed) 7"
    by (simp add: apu_armed_fields check_bit_def)
  have h: "check_bit 0x87 7" by (simp add: check_bit_def)
  show ?thesis
    using on h C7_trigger [OF on h]
    by (simp add: apu_armed_fields ToneChannel_init_def
        WaveChannel_init_def NoiseChannel_init_def divisors_def)
qed

text \<open>
  Claim C5 says that a write to 0xFF26 with bit 7 clear, made while NR52 bit 7 is
  set, resets every register of 0xFF10 to 0xFF25 to 0. \<open>Audio::write_register\<close>
  announces this ("reset all registers except NR52 itself") but the body of its
  reset loop is commented out: only the four \<open>enabled\<close> flags are cleared. Here the
  APU is switched on, 0x77 is written to NR50 (0xFF24) and then 0x00 to NR52; NR50
  still reads 0x77 afterwards.
\<close>

theorem C5_power_off_keeps_registers:
  "check_bit (nr52 (Audio_write_register apu_powered_on 0xFF24 0x77)) 7
   \<and> \<not> check_bit 0x00 7
   \<and> Audio_read_register (Audio_write_register apu_powered_on 0xFF24 0x77) 0xFF24 = 0x77
   \<and> Audio_read_register
        (Audio_write_register (Audio_write_register apu_powered_on 0xFF24 0x77) 0xFF26 0x00)
        0xFF24 = 0x77"
  by (simp add: apu_powered_on_eq write_on write_nr52 Let_def check_bit_def
      Audio_read_register_def)

text \<open>
  Claim C10. In every state the APU can reach, after \<open>Audio::tick\<close> the left and
  right sample buffers have the same length and every pair of vectors handed to
  the host callback consists of two vectors of the same length. \<open>mix_samples\<close> adds
  exactly one value to each buffer (also when the master enable is off), and after
  one round of the sampling loop either both buffers are empty or neither is.
\<close>

theorem C10_buffers_aligned:
  assumes "apu_reachable a"
  shows "length (left_buffer (Audio_tick cycles a)) = length (right_buffer (Audio_tick cycles a))
     \<and> (\<forall>p \<in> set (audio_callback_calls (Audio_tick cycles a)). length (fst p) = length (snd p))
     \<and> length (left_buffer (Audio_mix_samples a)) = Suc (length (left_buffer a))
     \<and> length (right_buffer (Audio_mix_samples a)) = Suc (length (right_buffer a))
     \<and> (left_buffer (Audio_sample_step a) = [] \<longleftrightarrow> right_buffer (Audio_sample_step a) = [])"
proof -
  from assms have "apu_inv (Audio_tick cycles a)"
    by (simp add: apu_reachable_inv apu_inv_tick)
  then have t: "length (left_buffer (Audio_tick cycles a)) = length (right_buffer (Audio_tick cycles a))"
    and c: "list_all good_call (audio_callback_calls (Audio_tick cycles a))"
    by (simp_all add: apu_inv_def)
  from c have c': "\<forall>p \<in> set (audio_callback_calls (Audio_tick cycles a)). length (fst p) = length (snd p)"
    by (simp add: list_all_iff good_call_def)
  have s: "left_buffer (Audio_sample_step a) = [] \<longleftrightarrow> right_buffer (Audio_sample_step a) = []"
    using mix_samples_lengths [of "a\<lparr>sample_counter := sample_counter a - CYCLES_PER_SAMPLE\<rparr>"]
    by (auto simp add: Audio_sample_step_def Let_def simp flip: length_0_conv)
  from t c' s show ?thesis by (simp add: mix_samples_lengths)
qed

theorem C10_buffers_aligned_witness:
  "apu_reachable apu_triggered
   \<and> left_buffer (Audio_tick 100 (Audio_init 0 0 0)) = [0]
   \<and> right_buffer (Audio_tick 100 (Audio_init 0 0 0)) = [0]
   \<and> length (left_buffer (Audio_tick 100 apu_triggered))
       = length (right_buffer (Audio_tick 100 apu_triggered))
   \<and> length (left_buffer (Audio_mix_samples apu_triggered)) = 1"
proof -
  have e: "left_buffer (Audio_tick 100 (Audio_init 0 0 0)) = [0]"
    "right_buffer (Audio_tick 100 (Audio_init 0 0 0)) = [0]"
    by (simp_all add: Audio_tick_funpow uint_max_def cps95 Audio_init_def tick_channels_def
        Audio_sample_step_def Audio_mix_samples_def check_bit_def Let_def)
  show ?thesis
    using e apu_triggered_reachable
      C10_buffers_aligned [OF apu_triggered_reachable, of 100]
    by (simp add: apu_triggered_fields)
qed















section \<open>The PPU: mode machine and sprites\<close>

lemmas clock_defs = CLOCKS_PER_HBLANK_def CLOCKS_PER_SCANLINE_OAM_def
  CLOCKS_PER_SCANLINE_VRAM_def CLOCKS_PER_SCANLINE_def uint_max_def

lemma mod_once: "k \<le> n \<Longrightarrow> n < 2 * k \<Longrightarrow> n mod k = n - (k::nat)"
  by (simp add: le_mod_geq)

lemma line_inc: "unat (l::u8) < 255 \<Longrightarrow> unat (l + 1) = unat l + 1"
  by (simp add: unat_word_ariths)

lemma line_is: "unat (l::u8) < 255 \<Longrightarrow> (l + 1 = 144) = (unat l = 143)"
  "unat (l::u8) < 255 \<Longrightarrow> (l + 1 = 154) = (unat l = 153)"
  using line_inc [of l] by (auto simp add: word_unat_eq_iff)

lemma result_simps:
  "returned (Inr x)" "\<not> returned (Inl e)" "state_of (Inr x) = x" "state_of (Inl (err, x)) = x"
  by (simp_all add: returned_def state_of_def)

lemma returned_Inr: "returned r \<Longrightarrow> r = Inr (state_of r)"
  by (cases r) (simp_all add: returned_def state_of_def)

lemma tick_oam:
  assumes "current_mode v = ACCESS_OAM" "cycle_counter v < 80" "c \<le> 80"
  shows "returned (Video_tick gb c v)"
    and "current_mode (state_of (Video_tick gb c v))
           = (if cycle_counter v + c < 80 then ACCESS_OAM else ACCESS_VRAM)"
    and "cycle_counter (state_of (Video_tick gb c v))
           = (if cycle_counter v + c < 80 then cycle_counter v + c else cycle_counter v + c - 80)"
    and "line (state_of (Video_tick gb c v)) = line v"
    and "vblank_calls (state_of (Video_tick gb c v)) = vblank_calls v"
    and "vblank_callback_set (state_of (Video_tick gb c v)) = vblank_callback_set v"
  using assms by (simp_all add: Video_tick_def Let_def clock_defs mod_once result_simps)

lemma tick_vram:
  assumes "current_mode v = ACCESS_VRAM" "cycle_counter v < 172" "c \<le> 80"
  shows "returned (Video_tick gb c v)"
    and "current_mode (state_of (Video_tick gb c v))
           = (if cycle_counter v + c < 172 then ACCESS_VRAM else HBLANK)"
    and "cycle_counter (state_of (Video_tick gb c v))
           = (if cycle_counter v + c < 172 then cycle_counter v + c else cycle_counter v + c - 172)"
    and "line (state_of (Video_tick gb c v)) = line v"
    and "vblank_calls (state_of (Video_tick gb c v)) = vblank_calls v"
    and "vblank_callback_set (state_of (Video_tick gb c v)) = vblank_callback_set v"
  using assms by (simp_all add: Video_tick_def Let_def clock_defs mod_once result_simps)

lemma tick_hblank:
  assumes "current_mode v = HBLANK" "cycle_counter v < 204" "c \<le> 80" "unat (line v) < 144"
  shows "returned (Video_tick gb c v)"
    and "current_mode (state_of (Video_tick gb c v))
           = (if cycle_counter v + c < 204 then HBLANK
              else if unat (line v) = 143 then VBLANK else ACCESS_OAM)"
    and "cycle_counter (state_of (Video_tick gb c v))
           = (if cycle_counter v + c < 204 then cycle_counter v + c else cycle_counter v + c - 204)"
    and "line (state_of (Video_tick gb c v))
           = (if cycle_counter v + c < 204 then line v else line v + 1)"
    and "vblank_calls (state_of (Video_tick gb c v)) = vblank_calls v"
    and "vblank_callback_set (state_of (Video_tick gb c v)) = vblank_callback_set v"
  using assms by (simp_all add: Video_tick_def Let_def clock_defs mod_once line_is result_simps)

lemma tick_vblank:
  assumes "current_mode v = VBLANK" "cycle_counter v < 456" "c \<le> 80" "unat (line v) < 154"
    and "vblank_callback_set v \<or> \<not> (456 \<le> cycle_counter v + c \<and> unat (line v) = 153)"
  shows "returned (Video_tick gb c v)"
    and "current_mode (state_of (Video_tick gb c v))
           = (if cycle_counter v + c < 456 then VBLANK
              else if unat (line v) = 153 then ACCESS_OAM else VBLANK)"
    and "cycle_counter (state_of (Video_tick gb c v))
           = (if cycle_counter v + c < 456 then cycle_counter v + c else cycle_counter v + c - 456)"
    and "line (state_of (Video_tick gb c v))
           = (if cycle_counter v + c < 456 then line v
              else if unat (line v) = 153 then 0 else line v + 1)"
    and "length (vblank_calls (state_of (Video_tick gb c v)))
           = (if cycle_counter v + c \<ge> 456 \<and> unat (line v) = 153
              then Suc (length (vblank_calls v)) else length (vblank_calls v))"
    and "vblank_callback_set (state_of (Video_tick gb c v)) = vblank_callback_set v"
  using assms
  by (auto simp add: Video_tick_def Video_draw_def Let_def clock_defs mod_once line_is
      result_simps)

lemma tick_vblank_throws:
  assumes "current_mode v = VBLANK" "cycle_counter v < 456" "c \<le> 80" "unat (line v) = 153"
    and "456 \<le> cycle_counter v + c" "\<not> vblank_callback_set v"
  shows "\<not> returned (Video_tick gb c v)"
    and "current_mode (state_of (Video_tick gb c v)) = VBLANK"
    and "line (state_of (Video_tick gb c v)) = 154"
    and "cycle_counter (state_of (Video_tick gb c v)) = cycle_counter v + c - 456"
    and "vblank_calls (state_of (Video_tick gb c v)) = vblank_calls v"
  using assms
  by (simp_all add: Video_tick_def Video_draw_def Let_def clock_defs mod_once line_is
      result_simps)

lemma tick_step:
  assumes "ppu_inv v" "c \<le> 80" "vblank_callback_set v \<or> ppu_phase v + c < 70224"
  shows "returned (Video_tick gb c v) \<and> ppu_inv (state_of (Video_tick gb c v))
       \<and> ppu_time (state_of (Video_tick gb c v)) = ppu_time v + c
       \<and> vblank_callback_set (state_of (Video_tick gb c v)) = vblank_callback_set v"
proof (cases "current_mode v")
  case ACCESS_OAM
  with assms have b: "cycle_counter v < 80" "unat (line v) < 144" by (simp_all add: ppu_inv_def)
  note t = tick_oam [OF ACCESS_OAM b(1) assms(2), of gb]
  from assms ACCESS_OAM b show ?thesis
    by (auto simp add: t ppu_inv_def ppu_time_def ppu_phase_def mode_offset_def)
next
  case ACCESS_VRAM
  with assms have b: "cycle_counter v < 172" "unat (line v) < 144" by (simp_all add: ppu_inv_def)
  note t = tick_vram [OF ACCESS_VRAM b(1) assms(2), of gb]
  from assms ACCESS_VRAM b show ?thesis
    by (auto simp add: t ppu_inv_def ppu_time_def ppu_phase_def mode_offset_def)
next
  case HBLANK
  with assms have b: "cycle_counter v < 204" "unat (line v) < 144" by (simp_all add: ppu_inv_def)
  note t = tick_hblank [OF HBLANK b(1) assms(2) b(2), of gb]
  from assms HBLANK b show ?thesis
    by (auto simp add: t ppu_inv_def ppu_time_def ppu_phase_def mode_offset_def line_inc)
next
  case VBLANK
  with assms have b: "cycle_counter v < 456" "unat (line v) < 154" "144 \<le> unat (line v)"
    by (simp_all add: ppu_inv_def)
  from assms(3) VBLANK
  have k: "vblank_callback_set v \<or> \<not> (456 \<le> cycle_counter v + c \<and> unat (line v) = 153)"
    by (auto simp add: ppu_phase_def mode_offset_def)
  note t = tick_vblank [OF VBLANK b(1) assms(2) b(2) k, of gb]
  from assms(1,2) VBLANK b show ?thesis
    by (auto simp add: t ppu_inv_def ppu_time_def ppu_phase_def mode_offset_def line_inc)
qed

lemma tick_throws:
  assumes "ppu_inv v" "c \<le> 80" "\<not> vblank_callback_set v" "70224 \<le> ppu_phase v + c"
  shows "\<not> returned (Video_tick gb c v) \<and> current_mode (state_of (Video_tick gb c v)) = VBLANK
       \<and> line (state_of (Video_tick gb c v)) = 154"
proof (cases "current_mode v")
  case VBLANK
  with assms have b: "cycle_counter v < 456" "unat (line v) < 154"
    by (simp_all add: ppu_inv_def)
  with assms(2,4) VBLANK have l: "unat (line v) = 153" and o: "456 \<le> cycle_counter v + c"
    by (simp_all add: ppu_phase_def mode_offset_def)
  from tick_vblank_throws [OF VBLANK b(1) assms(2) l o assms(3), of gb] show ?thesis by simp
qed (use assms in \<open>simp_all add: ppu_inv_def ppu_phase_def mode_offset_def\<close>)

lemma phase_bound: "ppu_inv v \<Longrightarrow> ppu_phase v < 70224"
  by (cases "current_mode v") (simp_all add: ppu_inv_def ppu_phase_def mode_offset_def)

lemma phase_step:
  assumes "ppu_inv v" "c \<le> 80" "ppu_phase v + c < 70224"
  shows "ppu_phase (state_of (Video_tick gb c v)) = ppu_phase v + c"
proof -
  let ?w = "state_of (Video_tick gb c v)"
  from tick_step [OF assms(1,2), of gb] assms(3)
  have i: "ppu_inv ?w" and t: "ppu_time ?w = ppu_time v + c" by simp_all
  from t have "(length (vblank_calls ?w) * 70224 + ppu_phase ?w) mod 70224
      = (length (vblank_calls v) * 70224 + (ppu_phase v + c)) mod 70224"
    unfolding ppu_time_def by (simp only: add.assoc)
  then have "ppu_phase ?w mod 70224 = (ppu_phase v + c) mod 70224"
    by (simp only: mod_mult_self3)
  with phase_bound [OF i] assms(3) show ?thesis by simp
qed

lemma run_cons_returned:
  "Video_tick gb c v = Inr w \<Longrightarrow> Video_run gb (c # cs) v = Video_run gb cs w"
  by simp

lemma run_cons_thrown:
  "Video_tick gb c v = Inl e \<Longrightarrow> Video_run gb (c # cs) v = Inl e"
  by simp

lemma run_step:
  "ppu_inv v \<Longrightarrow> \<forall>c \<in> set cs. c \<le> 80 \<Longrightarrow>
   vblank_callback_set v \<or> ppu_phase v + sum_list cs < 70224 \<Longrightarrow>
   returned (Video_run gb cs v) \<and> ppu_inv (state_of (Video_run gb cs v))
   \<and> ppu_time (state_of (Video_run gb cs v)) = ppu_time v + sum_list cs
   \<and> vblank_callback_set (state_of (Video_run gb cs v)) = vblank_callback_set v"
proof (induction cs arbitrary: v)
  case Nil
  then show ?case by (simp add: result_simps)
next
  case (Cons c cs)
  from Cons.prems have c: "c \<le> 80" and k: "vblank_callback_set v \<or> ppu_phase v + c < 70224"
    by auto
  note st = tick_step [OF Cons.prems(1) c k, of gb]
  from st obtain w where w: "Video_tick gb c v = Inr w"
    by (cases "Video_tick gb c v") (simp_all add: returned_def)
  then have sw: "state_of (Video_tick gb c v) = w" by (simp add: result_simps)
  from st have s: "ppu_inv w" "ppu_time w = ppu_time v + c"
    "vblank_callback_set w = vblank_callback_set v"
    unfolding sw by simp_all
  have k': "vblank_callback_set w \<or> ppu_phase w + sum_list cs < 70224"
  proof (cases "vblank_callback_set v")
    case True
    with s(3) show ?thesis by simp
  next
    case False
    with Cons.prems(3) have a: "ppu_phase v + c + sum_list cs < 70224" by simp
    then have "ppu_phase v + c < 70224" by simp
    from phase_step [OF Cons.prems(1) c this, of gb]
    have "ppu_phase w = ppu_phase v + c" unfolding sw .
    with a show ?thesis by simp
  qed
  from Cons.prems(2) have "\<forall>c \<in> set cs. c \<le> 80" by simp
  from Cons.IH [OF s(1) this k'] s(2,3)
  have "returned (Video_run gb cs w) \<and> ppu_inv (state_of (Video_run gb cs w))
     \<and> ppu_time (state_of (Video_run gb cs w)) = ppu_time v + sum_list (c # cs)
     \<and> vblank_callback_set (state_of (Video_run gb cs w)) = vblank_callback_set v"
    by simp
  then show ?case unfolding run_cons_returned [OF w] .
qed

lemma run_throws:
  "ppu_inv v \<Longrightarrow> \<forall>c \<in> set cs. c \<le> 80 \<Longrightarrow> \<not> vblank_callback_set v \<Longrightarrow>
   70224 \<le> ppu_phase v + sum_list cs \<Longrightarrow>
   \<not> returned (Video_run gb cs v) \<and> current_mode (state_of (Video_run gb cs v)) = VBLANK
   \<and> line (state_of (Video_run gb cs v)) = 154"
proof (induction cs arbitrary: v)
  case Nil
  with phase_bound [of v] show ?case by simp
next
  case (Cons c cs)
  from Cons.prems have c: "c \<le> 80" by simp
  show ?case
  proof (cases "70224 \<le> ppu_phase v + c")
    case True
    note t = tick_throws [OF Cons.prems(1) c Cons.prems(3) True, of gb]
    from t obtain e where e: "Video_tick gb c v = Inl e"
      by (cases "Video_tick gb c v") (simp_all add: returned_def)
    from t show ?thesis unfolding run_cons_thrown [OF e] e .
  next
    case False
    then have lt: "ppu_phase v + c < 70224" by simp
    then have k: "vblank_callback_set v \<or> ppu_phase v + c < 70224" by simp
    note st = tick_step [OF Cons.prems(1) c k, of gb]
    from st obtain w where w: "Video_tick gb c v = Inr w"
      by (cases "Video_tick gb c v") (simp_all add: returned_def)
    then have sw: "state_of (Video_tick gb c v) = w" by (simp add: result_simps)
    from st Cons.prems(3) have s: "ppu_inv w" "\<not> vblank_callback_set w"
      unfolding sw by simp_all
    from phase_step [OF Cons.prems(1) c lt, of gb] Cons.prems(4)
    have p: "70224 \<le> ppu_phase w + sum_list cs" unfolding sw by simp
    from Cons.prems(2) have "\<forall>c \<in> set cs. c \<le> 80" by simp
    from Cons.IH [OF s(1) this s(2) p] show ?thesis unfolding run_cons_returned [OF w] .
  qed
qed

lemma schedule_of_phase:
  assumes "ppu_inv v"
  shows "(current_mode v, unat (line v), cycle_counter v) = spec_ppu_at (ppu_time v)"
proof -
  have p: "ppu_time v mod 70224 = ppu_phase v"
    using phase_bound [OF assms] by (simp add: ppu_time_def)
  show ?thesis
  proof (cases "current_mode v")
    case ACCESS_OAM
    with assms have b: "cycle_counter v < 80" "unat (line v) < 144" by (simp_all add: ppu_inv_def)
    with ACCESS_OAM have "ppu_phase v = unat (line v) * 456 + cycle_counter v"
      by (simp add: ppu_phase_def mode_offset_def)
    with b ACCESS_OAM show ?thesis by (simp add: spec_ppu_at_def p Let_def)
  next
    case ACCESS_VRAM
    with assms have b: "cycle_counter v < 172" "unat (line v) < 144" by (simp_all add: ppu_inv_def)
    with ACCESS_VRAM have "ppu_phase v = unat (line v) * 456 + (80 + cycle_counter v)"
      by (simp add: ppu_phase_def mode_offset_def)
    with b ACCESS_VRAM show ?thesis by (simp add: spec_ppu_at_def p Let_def)
  next
    case HBLANK
    with assms have b: "cycle_counter v < 204" "unat (line v) < 144" by (simp_all add: ppu_inv_def)
    with HBLANK have "ppu_phase v = unat (line v) * 456 + (252 + cycle_counter v)"
      by (simp add: ppu_phase_def mode_offset_def)
    with b HBLANK show ?thesis by (simp add: spec_ppu_at_def p Let_def)
  next
    case VBLANK
    with assms have b: "cycle_counter v < 456" "unat (line v) < 154" "144 \<le> unat (line v)"
      by (simp_all add: ppu_inv_def)
    with VBLANK have "ppu_phase v = unat (line v) * 456 + cycle_counter v"
      by (simp add: ppu_phase_def mode_offset_def)
    with b VBLANK show ?thesis by (simp add: spec_ppu_at_def p Let_def)
  qed
qed

lemma frames_of_time: "ppu_inv v \<Longrightarrow> length (vblank_calls v) = ppu_time v div 70224"
  using phase_bound [of v] by (simp add: ppu_time_def)

lemma fold_set_pixel_hit:
  "x < n \<Longrightarrow>
   fold (\<lambda>sx b. FrameBuffer_set_pixel sx y (f sx) b) [0..<n] buf (x, y) = f x"
  by (induction n) (auto simp add: FrameBuffer_set_pixel_def less_Suc_eq)

lemma fold_set_pixel_miss:
  "y' \<noteq> y \<or> n \<le> x \<Longrightarrow>
   fold (\<lambda>sx b. FrameBuffer_set_pixel sx y (f sx) b) [0..<n] buf (x, y') = buf (x, y')"
  by (induction n) (auto simp add: FrameBuffer_set_pixel_def)

lemma draw_bg_line_pixel:
  "Video_draw_bg_line gb v l buf (x, y) =
     (if y = l \<and> x < 160
      then get_color_from_palette (bg_pixel_color gb v x l) (load_palette (bg_palette v))
      else buf (x, y))"
proof (cases "y = l \<and> x < 160")
  case True
  then show ?thesis
    by (simp add: Video_draw_bg_line_def Let_def GAMEBOY_WIDTH_def fold_set_pixel_hit)
next
  case False
  then have "y \<noteq> l \<or> 160 \<le> x" by auto
  from fold_set_pixel_miss [OF this] False show ?thesis
    by (auto simp add: Video_draw_bg_line_def Let_def GAMEBOY_WIDTH_def)
qed

lemma demo_bg_index: "bg_pixel_color gb_sprite_demo video_demo 0 0 = Color0"
  by (simp add: bg_pixel_color_def tile_line_pixel_def Let_def gb_sprite_demo_def video_demo_def
      bg_window_tile_data_def bg_tile_map_display_def check_bit_def
      get_pixel_from_line_def bit_value_def get_color_def
      TILE_SET_ZERO_ADDRESS_def TILE_MAP_ZERO_ADDRESS_def BG_MAP_SIZE_def TILE_WIDTH_PX_def
      TILE_HEIGHT_PX_def TILES_PER_LINE_def TILE_BYTES_def uint_max_def)

lemma sprite_pixel_step_frame:
  "p \<noteq> (nat (start_x + int x), nat (start_y + int y)) \<Longrightarrow>
   sprite_pixel_step gb pa m fx fy bb pal start_x start_y y x buf p = buf p"
  by (simp add: sprite_pixel_step_def Let_def FrameBuffer_set_pixel_def)

lemma video_demo_fields:
  "bg_palette video_demo = 0x1B"
  "sprite_palette_0 video_demo = 0x1B" "control_byte video_demo = 0x93"
  by (simp_all add: video_demo_def)

lemma demo_bg_drawn:
  "FrameBuffer_get_pixel 0 0 (Video_draw_bg_line gb_sprite_demo video_demo 0 (\<lambda>p. White)) = Black"
  by (simp add: FrameBuffer_get_pixel_def draw_bg_line_pixel demo_bg_index
      get_color_from_palette_def load_palette_def get_real_color_def video_demo_fields)

lemma demo_oam:
  "mmu_read gb_sprite_demo 0xFE00 = 16" "mmu_read gb_sprite_demo 0xFE01 = 8"
  "mmu_read gb_sprite_demo 0xFE02 = 1" "mmu_read gb_sprite_demo 0xFE03 = 0x80"
  "tile_get_pixel gb_sprite_demo 0x8010 m x y = Color3"
  by (simp_all add: gb_sprite_demo_def)

lemma sprite_row_frame:
  "y \<noteq> 0 \<or> 0 \<notin> set xs \<Longrightarrow>
   fold (\<lambda>x b'. sprite_pixel_step gb pa m fx fy bb pal 0 0 y x b') xs buf (0, 0) = buf (0, 0)"
  by (induction xs arbitrary: buf) (auto simp add: sprite_pixel_step_frame)

lemma sprite_rows_frame:
  "0 \<notin> set ys \<Longrightarrow>
   fold (\<lambda>y b. fold (\<lambda>x b'. sprite_pixel_step gb pa m fx fy bb pal 0 0 y x b') xs b) ys buf (0, 0)
     = buf (0, 0)"
  by (induction ys arbitrary: buf) (auto simp add: sprite_row_frame)

lemma sprite_fold_origin:
  "fold (\<lambda>y b. fold (\<lambda>x b'. sprite_pixel_step gb pa m fx fy bb pal 0 0 y x b') [0..<8] b)
      [0..<8] buf (0, 0)
   = sprite_pixel_step gb pa m fx fy bb pal 0 0 0 0 buf (0, 0)"
proof -
  have u: "[0..<8] = 0 # [1..<8]" by (simp add: upt_conv_Cons)
  have n: "0 \<notin> set [1..<8]" by simp
  let ?row = "\<lambda>y b. fold (\<lambda>x b'. sprite_pixel_step gb pa m fx fy bb pal 0 0 y x b') [0..<8] b"
  have "fold ?row [0..<8] buf (0, 0) = fold ?row [1..<8] (?row 0 buf) (0, 0)"
    by (subst u) (simp only: fold_Cons comp_apply)
  also have "\<dots> = ?row 0 buf (0, 0)"
    by (rule sprite_rows_frame [OF n])
  also have "\<dots> = fold (\<lambda>x b'. sprite_pixel_step gb pa m fx fy bb pal 0 0 0 x b') [1..<8]
      (sprite_pixel_step gb pa m fx fy bb pal 0 0 0 0 buf) (0, 0)"
    by (subst u) (simp only: fold_Cons comp_apply)
  also have "\<dots> = sprite_pixel_step gb pa m fx fy bb pal 0 0 0 0 buf (0, 0)"
    by (rule sprite_row_frame) (simp add: n)
  finally show ?thesis .
qed

lemma demo_draw_sprite:
  "Video_draw_sprite gb_sprite_demo video_demo 0 buf =
     fold (\<lambda>y b. fold (\<lambda>x b'. sprite_pixel_step gb_sprite_demo 0x8010 1 False False True
                                 (load_palette 0x1B) 0 0 y x b') [0..<8] b) [0..<8] buf"
  by (simp add: Video_draw_sprite_def Let_def demo_oam
        video_demo_fields sprite_size_def check_bit_def SPRITE_BYTES_def TILE_BYTES_def
        TILE_SET_ZERO_ADDRESS_def TILE_WIDTH_PX_def TILE_HEIGHT_PX_def del: upt_Suc)

lemma demo_sprite_suppressed:
  assumes "buf (0, 0) = Black"
  shows "FrameBuffer_get_pixel 0 0 (Video_draw_sprite gb_sprite_demo video_demo 0 buf) = Black"
proof -
  have "Video_draw_sprite gb_sprite_demo video_demo 0 buf (0, 0)
      = sprite_pixel_step gb_sprite_demo 0x8010 1 False False True (load_palette 0x1B) 0 0 0 0
          buf (0, 0)"
    unfolding demo_draw_sprite by (rule sprite_fold_origin)
  also have "\<dots> = Black"
    using assms
    by (simp add: sprite_pixel_step_def Let_def is_on_screen_def is_on_screen_x_def
      is_on_screen_y_def GAMEBOY_WIDTH_def GAMEBOY_HEIGHT_def get_original_color_at_def
      FrameBuffer_get_pixel_def demo_oam)
  finally show ?thesis by (simp add: FrameBuffer_get_pixel_def)
qed

lemma reset_inv: "Video_at_reset v \<Longrightarrow> ppu_inv v \<and> ppu_time v = 0 \<and> ppu_phase v = 0"
  by (simp add: Video_at_reset_def ppu_inv_def ppu_time_def ppu_phase_def mode_offset_def)

lemma vblank_entry:
  assumes "current_mode w = HBLANK" "current_mode (state_of (Video_tick gb c w)) = VBLANK"
  shows "returned (Video_tick gb c w) \<and> line (state_of (Video_tick gb c w)) = 144
       \<and> bit (interrupt_flag (state_of (Video_tick gb c w))) 0"
  using assms
  by (simp add: Video_tick_def Let_def set_bit_to_def bit_set_bit_iff result_simps
      split: if_splits)

lemma frame_clocks: "CLOCKS_PER_FRAME = 70224"
  by (simp add: CLOCKS_PER_FRAME_def CLOCKS_PER_SCANLINE_def CLOCKS_PER_SCANLINE_OAM_def
      CLOCKS_PER_SCANLINE_VRAM_def CLOCKS_PER_HBLANK_def SCANLINES_PER_FRAME_def
      CLOCKS_PER_VBLANK_def)

lemma video_demo_reset: "Video_at_reset video_demo" "vblank_callback_set video_demo"
  by (simp_all add: Video_at_reset_def video_demo_def)

lemma video_no_callback_reset:
  "Video_at_reset video_no_callback" "\<not> vblank_callback_set video_no_callback"
  by (simp_all add: Video_at_reset_def video_no_callback_def video_demo_def
      Video_register_vblank_callback_def)

text \<open>
  Claim C1 speaks of every sequence of PPU ticks. \<open>Video::tick\<close> makes at most one
  mode change per call and reduces the cycle counter modulo the length of the mode,
  so a tick longer than a mode loses time: from reset, one tick of 160 T-states
  leaves the PPU at the start of VRAM-access, where the schedule has it 80 T-states
  into that mode. And \<open>Video::tick\<close> calls the frame callback without testing it:
  when none is registered, the tick that ends the first frame (the 878th of 80
  T-states) throws, with LY at 154 and the PPU still in VBlank, where the schedule
  has it in OAM-scan on line 0.
\<close>

theorem C1_large_tick_counterexample:
  "Video_at_reset video_demo
   \<and> spec_ppu_at (sum_list [160]) = (ACCESS_VRAM, 0, 80)
   \<and> returned (Video_run gb_blank [160] video_demo)
   \<and> (current_mode (state_of (Video_run gb_blank [160] video_demo)),
       unat (line (state_of (Video_run gb_blank [160] video_demo))),
       cycle_counter (state_of (Video_run gb_blank [160] video_demo))) = (ACCESS_VRAM, 0, 0)
   \<and> (current_mode (state_of (Video_run gb_blank [160] video_demo)),
       unat (line (state_of (Video_run gb_blank [160] video_demo))),
       cycle_counter (state_of (Video_run gb_blank [160] video_demo)))
        \<noteq> spec_ppu_at (sum_list [160])
   \<and> Video_at_reset video_no_callback
   \<and> spec_ppu_at (sum_list (replicate 878 80)) = (ACCESS_OAM, 0, 16)
   \<and> \<not> returned (Video_run gb_blank (replicate 878 80) video_no_callback)
   \<and> current_mode (state_of (Video_run gb_blank (replicate 878 80) video_no_callback)) = VBLANK
   \<and> line (state_of (Video_run gb_blank (replicate 878 80) video_no_callback)) = 154"
proof -
  have s: "spec_ppu_at (sum_list [160]) = (ACCESS_VRAM, 0, 80)"
    "spec_ppu_at (sum_list (replicate 878 80)) = (ACCESS_OAM, 0, 16)"
    by (simp_all add: spec_ppu_at_def sum_list_replicate)
  have r: "Video_run gb_blank [160] video_demo
      = Inr (video_demo\<lparr>cycle_counter := 0, lcd_status := 3, current_mode := ACCESS_VRAM\<rparr>)"
    by (simp add: Video_tick_def Let_def video_demo_def uint_max_def
        CLOCKS_PER_SCANLINE_OAM_def set_bit_to_def)
  have m: "returned (Video_run gb_blank [160] video_demo)"
    "(current_mode (state_of (Video_run gb_blank [160] video_demo)),
       unat (line (state_of (Video_run gb_blank [160] video_demo))),
       cycle_counter (state_of (Video_run gb_blank [160] video_demo))) = (ACCESS_VRAM, 0, 0)"
    unfolding r by (simp_all add: result_simps video_demo_def)
  from reset_inv [OF video_no_callback_reset(1)]
  have i: "ppu_inv video_no_callback" and p: "ppu_phase video_no_callback = 0" by simp_all
  have b: "\<forall>c \<in> set (replicate 878 80). c \<le> (80::nat)" by simp
  have "70224 \<le> ppu_phase video_no_callback + sum_list (replicate 878 80)"
    by (simp add: p sum_list_replicate)
  note t = run_throws [OF i b video_no_callback_reset(2) this, of gb_blank]
  from s m t video_demo_reset(1) video_no_callback_reset(1) show ?thesis by simp
qed

text \<open>
  Claim C1, for ticks of at most 80 T-states each (a CPU instruction takes 4 to 24)
  and a registered frame callback (\<open>Gameboy::run\<close> registers it before the first
  tick). From the start state, every such sequence of ticks returns, and after it
  the mode, LY and the cycle counter are those of the schedule at the total number
  of T-states: 80 in OAM-scan, then 172 in VRAM-access, then 204 in HBlank on each
  of the lines 0 to 143, then 10 lines of 456 in VBlank; one frame is handed to
  the host per 70224 T-states (\<open>CLOCKS_PER_FRAME\<close>). With no callback registered
  the same holds as long as the ticks add up to less than a frame, and a sequence
  that adds up to a frame or more ends in the exception of the tick that completes
  the first frame, with LY at 154 in VBlank. Every tick that takes the PPU from
  HBlank into VBlank returns, leaves LY at 144 and sets bit 0 of the interrupt
  flag.
\<close>

theorem C1_mode_schedule:
  assumes "Video_at_reset v" and "\<forall>c \<in> set cs. c \<le> 80"
  shows "(vblank_callback_set v \<or> sum_list cs < CLOCKS_PER_FRAME \<longrightarrow>
            returned (Video_run gb cs v)
          \<and> (current_mode (state_of (Video_run gb cs v)),
             unat (line (state_of (Video_run gb cs v))),
             cycle_counter (state_of (Video_run gb cs v))) = spec_ppu_at (sum_list cs)
          \<and> length (vblank_calls (state_of (Video_run gb cs v)))
              = sum_list cs div CLOCKS_PER_FRAME)
       \<and> (\<not> vblank_callback_set v \<and> CLOCKS_PER_FRAME \<le> sum_list cs \<longrightarrow>
            \<not> returned (Video_run gb cs v)
          \<and> current_mode (state_of (Video_run gb cs v)) = VBLANK
          \<and> line (state_of (Video_run gb cs v)) = 154)
       \<and> CLOCKS_PER_FRAME = 70224
       \<and> (\<forall>w c. current_mode w = HBLANK \<and> current_mode (state_of (Video_tick gb c w)) = VBLANK
            \<longrightarrow> returned (Video_tick gb c w) \<and> line (state_of (Video_tick gb c w)) = 144
               \<and> bit (interrupt_flag (state_of (Video_tick gb c w))) 0)"
proof -
  from reset_inv [OF assms(1)]
  have i: "ppu_inv v" and t: "ppu_time v = 0" and p: "ppu_phase v = 0" by simp_all
  have ok: "returned (Video_run gb cs v)
          \<and> (current_mode (state_of (Video_run gb cs v)),
             unat (line (state_of (Video_run gb cs v))),
             cycle_counter (state_of (Video_run gb cs v))) = spec_ppu_at (sum_list cs)
          \<and> length (vblank_calls (state_of (Video_run gb cs v)))
              = sum_list cs div CLOCKS_PER_FRAME"
    if k: "vblank_callback_set v \<or> sum_list cs < CLOCKS_PER_FRAME"
  proof -
    from k have "vblank_callback_set v \<or> ppu_phase v + sum_list cs < 70224"
      by (simp add: p frame_clocks)
    from run_step [OF i assms(2) this, of gb] t
    have r: "returned (Video_run gb cs v)" "ppu_inv (state_of (Video_run gb cs v))"
      "ppu_time (state_of (Video_run gb cs v)) = sum_list cs"
      by simp_all
    from schedule_of_phase [OF r(2)] frames_of_time [OF r(2)] r(1,3) frame_clocks
    show ?thesis by simp
  qed
  have throws: "\<not> returned (Video_run gb cs v)
          \<and> current_mode (state_of (Video_run gb cs v)) = VBLANK
          \<and> line (state_of (Video_run gb cs v)) = 154"
    if k: "\<not> vblank_callback_set v \<and> CLOCKS_PER_FRAME \<le> sum_list cs"
  proof -
    from k have "70224 \<le> ppu_phase v + sum_list cs" by (simp add: p frame_clocks)
    with k run_throws [OF i assms(2), of gb] show ?thesis by simp
  qed
  from ok throws frame_clocks vblank_entry [of _ gb] show ?thesis by blast
qed

theorem C1_mode_schedule_witness:
  "Video_at_reset video_demo
   \<and> vblank_callback_set video_demo
   \<and> returned (Video_run gb_blank (replicate 878 80) video_demo)
   \<and> current_mode (state_of (Video_run gb_blank (replicate 878 80) video_demo)) = ACCESS_OAM
   \<and> line (state_of (Video_run gb_blank (replicate 878 80) video_demo)) = 0
   \<and> cycle_counter (state_of (Video_run gb_blank (replicate 878 80) video_demo)) = 16
   \<and> length (vblank_calls (state_of (Video_run gb_blank (replicate 878 80) video_demo))) = 1
   \<and> Video_at_reset video_no_callback
   \<and> \<not> vblank_callback_set video_no_callback
   \<and> CLOCKS_PER_FRAME \<le> sum_list (replicate 878 80)
   \<and> \<not> returned (Video_run gb_blank (replicate 878 80) video_no_callback)
   \<and> line (state_of (Video_run gb_blank (replicate 878 80) video_no_callback)) = 154
   \<and> current_mode video_last_hblank = HBLANK
   \<and> current_mode (state_of (Video_tick gb_blank 4 video_last_hblank)) = VBLANK
   \<and> returned (Video_tick gb_blank 4 video_last_hblank)
   \<and> line (state_of (Video_tick gb_blank 4 video_last_hblank)) = 144
   \<and> bit (interrupt_flag (state_of (Video_tick gb_blank 4 video_last_hblank))) 0"
proof -
  have h: "current_mode video_last_hblank = HBLANK"
    "current_mode (state_of (Video_tick gb_blank 4 video_last_hblank)) = VBLANK"
    by (simp_all add: video_last_hblank_def video_demo_def Video_tick_def Let_def
        uint_max_def clock_defs result_simps)
  have b: "\<forall>c \<in> set (replicate 878 80). c \<le> (80::nat)" by simp
  note e = C1_mode_schedule [OF video_demo_reset(1) b, of gb_blank,
      THEN conjunct2, THEN conjunct2, THEN conjunct2, THEN spec, THEN spec, THEN mp,
      OF conjI, OF h]
  have s: "spec_ppu_at (sum_list (replicate 878 80)) = (ACCESS_OAM, 0, 16)"
    by (simp add: sum_list_replicate spec_ppu_at_def)
  have f: "CLOCKS_PER_FRAME \<le> sum_list (replicate 878 80)"
    by (simp add: sum_list_replicate frame_clocks)
  note t = C1_mode_schedule [OF video_demo_reset(1) b, of gb_blank, THEN conjunct1,
      THEN mp, OF disjI1, OF video_demo_reset(2)]
  note u = C1_mode_schedule [OF video_no_callback_reset(1) b, of gb_blank,
      THEN conjunct2, THEN conjunct1, THEN mp, OF conjI, OF video_no_callback_reset(2) f]
  from t [THEN conjunct2, THEN conjunct1] have
    "current_mode (state_of (Video_run gb_blank (replicate 878 80) video_demo)) = ACCESS_OAM"
    "unat (line (state_of (Video_run gb_blank (replicate 878 80) video_demo))) = 0"
    "cycle_counter (state_of (Video_run gb_blank (replicate 878 80) video_demo)) = 16"
    unfolding s by simp_all
  moreover from t [THEN conjunct2, THEN conjunct2] have
    "length (vblank_calls (state_of (Video_run gb_blank (replicate 878 80) video_demo))) = 1"
    by (simp add: sum_list_replicate frame_clocks)
  ultimately show ?thesis
    using video_demo_reset video_no_callback_reset f t [THEN conjunct1]
      u [THEN conjunct1] u [THEN conjunct2, THEN conjunct2] h e
    by (simp add: unat_eq_zero)
qed

lemma control_byte_tick: "control_byte (state_of (Video_tick gb c v)) = control_byte v"
  by (simp add: Video_tick_def Video_draw_def Let_def result_simps split: VideoMode.split)

lemma control_byte_run: "control_byte (state_of (Video_run gb cs v)) = control_byte v"
proof (induction cs arbitrary: v)
  case Nil
  show ?case by (simp add: result_simps)
next
  case (Cons c cs)
  show ?case
  proof (cases "Video_tick gb c v")
    case (Inl e)
    with control_byte_tick [of gb c v] show ?thesis by simp
  next
    case (Inr w)
    with control_byte_tick [of gb c v] Cons.IH [of w] show ?thesis
      by (simp add: result_simps)
  qed
qed

lemma Video_run_snoc:
  "Video_run gb (cs @ [c]) v =
     (case Video_run gb cs v of Inl e \<Rightarrow> Inl e | Inr w \<Rightarrow> Video_tick gb c w)"
  by (induction cs arbitrary: v) (simp_all split: sum.split)

lemma lcd_off_reset: "Video_at_reset video_lcd_off"
  by (simp add: Video_at_reset_def video_lcd_off_def video_demo_def)

lemma lcd_off_vblank_interrupt:
  "returned (Video_run gb_blank (replicate 820 80 @ [64]) video_lcd_off)"
  "bit (interrupt_flag
     (state_of (Video_run gb_blank (replicate 820 80 @ [64]) video_lcd_off))) 0"
proof -
  let ?r1 = "Video_run gb_blank (replicate 820 80) video_lcd_off"
  let ?r2 = "Video_run gb_blank (replicate 820 80 @ [64]) video_lcd_off"
  from reset_inv [OF lcd_off_reset]
  have i: "ppu_inv video_lcd_off" and t: "ppu_time video_lcd_off = 0"
    and p: "ppu_phase video_lcd_off = 0"
    by simp_all
  have b1: "\<forall>c \<in> set (replicate 820 80). c \<le> (80::nat)" by simp
  have k1: "vblank_callback_set video_lcd_off
      \<or> ppu_phase video_lcd_off + sum_list (replicate 820 80) < 70224"
    by (simp add: p sum_list_replicate)
  from run_step [OF i b1 k1, of gb_blank] t
  have r1: "returned ?r1" and i1: "ppu_inv (state_of ?r1)"
    and t1: "ppu_time (state_of ?r1) = 65600"
    by (simp_all add: sum_list_replicate)
  have b2: "\<forall>c \<in> set (replicate 820 80 @ [64]). c \<le> (80::nat)" by simp
  have k2: "vblank_callback_set video_lcd_off
      \<or> ppu_phase video_lcd_off + sum_list (replicate 820 80 @ [64]) < 70224"
    by (simp add: p sum_list_replicate)
  from run_step [OF i b2 k2, of gb_blank] t
  have r2: "returned ?r2" and i2: "ppu_inv (state_of ?r2)"
    and t2: "ppu_time (state_of ?r2) = 65664"
    by (simp_all add: sum_list_replicate)
  have e: "?r2 = Video_tick gb_blank 64 (state_of ?r1)"
    using returned_Inr [OF r1] by (metis Video_run_snoc sum.case(2))
  have "spec_ppu_at 65600 = (HBLANK, 143, 140)" "spec_ppu_at 65664 = (VBLANK, 144, 0)"
    by (simp_all add: spec_ppu_at_def)
  with schedule_of_phase [OF i1] schedule_of_phase [OF i2] t1 t2
  have "current_mode (state_of ?r1) = HBLANK"
    "current_mode (state_of (Video_tick gb_blank 64 (state_of ?r1))) = VBLANK"
    by (simp_all add: e)
  from vblank_entry [OF this] show "bit (interrupt_flag (state_of ?r2)) 0"
    by (simp add: e)
  from r2 show "returned ?r2" .
qed

text \<open>
  Claim C2 says that the PPU stays in OAM-scan with LY = 0 while LCDC bit 7 is 0.
  \<open>Video::tick\<close> does not read LCDC: with bit 7 clear, a tick of 80 T-states from the
  start state enters VRAM-access, after six such ticks LY is 1, and after 65664
  T-states the VBlank interrupt is requested.
\<close>

theorem C2_lcd_off_counterexample:
  "\<not> display_enabled video_lcd_off
   \<and> current_mode video_lcd_off = ACCESS_OAM
   \<and> line video_lcd_off = 0
   \<and> cycle_counter video_lcd_off = 0
   \<and> interrupt_flag video_lcd_off = 0
   \<and> returned (Video_tick gb_blank 80 video_lcd_off)
   \<and> \<not> display_enabled (state_of (Video_tick gb_blank 80 video_lcd_off))
   \<and> current_mode (state_of (Video_tick gb_blank 80 video_lcd_off)) = ACCESS_VRAM
   \<and> returned (Video_run gb_blank [80, 80, 80, 80, 80, 80] video_lcd_off)
   \<and> \<not> display_enabled (state_of (Video_run gb_blank [80, 80, 80, 80, 80, 80] video_lcd_off))
   \<and> line (state_of (Video_run gb_blank [80, 80, 80, 80, 80, 80] video_lcd_off)) = 1
   \<and> returned (Video_run gb_blank (replicate 820 80 @ [64]) video_lcd_off)
   \<and> \<not> display_enabled
         (state_of (Video_run gb_blank (replicate 820 80 @ [64]) video_lcd_off))
   \<and> bit (interrupt_flag
         (state_of (Video_run gb_blank (replicate 820 80 @ [64]) video_lcd_off))) 0"
proof -
  have off: "\<not> display_enabled video_lcd_off" "current_mode video_lcd_off = ACCESS_OAM"
    "line video_lcd_off = 0" "cycle_counter video_lcd_off = 0"
    "interrupt_flag video_lcd_off = 0"
    by (simp_all add: video_lcd_off_def video_demo_def display_enabled_def check_bit_def)
  have stay: "\<not> display_enabled (state_of (Video_tick gb_blank 80 video_lcd_off))"
    "\<not> display_enabled (state_of (Video_run gb_blank [80, 80, 80, 80, 80, 80] video_lcd_off))"
    "\<not> display_enabled
        (state_of (Video_run gb_blank (replicate 820 80 @ [64]) video_lcd_off))"
    using off(1)
    by (simp_all only: display_enabled_def control_byte_tick control_byte_run not_False_eq_True)
  have m: "returned (Video_tick gb_blank 80 video_lcd_off)"
    "current_mode (state_of (Video_tick gb_blank 80 video_lcd_off)) = ACCESS_VRAM"
    by (simp_all add: video_lcd_off_def video_demo_def Video_tick_def Let_def uint_max_def
        clock_defs result_simps)
  from reset_inv [OF lcd_off_reset]
  have i: "ppu_inv video_lcd_off" and t: "ppu_time video_lcd_off = 0"
    and p: "ppu_phase video_lcd_off = 0"
    by simp_all
  have b: "\<forall>c \<in> set [80, 80, 80, 80, 80, 80]. c \<le> (80::nat)" by simp
  have k: "vblank_callback_set video_lcd_off
      \<or> ppu_phase video_lcd_off + sum_list [80, 80, 80, 80, 80, 80] < 70224"
    by (simp add: p)
  from run_step [OF i b k, of gb_blank] t
  have r: "returned (Video_run gb_blank [80, 80, 80, 80, 80, 80] video_lcd_off)"
    and i6: "ppu_inv (state_of (Video_run gb_blank [80, 80, 80, 80, 80, 80] video_lcd_off))"
    and t6: "ppu_time (state_of (Video_run gb_blank [80, 80, 80, 80, 80, 80] video_lcd_off))
        = 480"
    by simp_all
  have "spec_ppu_at 480 = (ACCESS_OAM, 1, 24)" by (simp add: spec_ppu_at_def)
  with schedule_of_phase [OF i6] t6
  have "unat (line (state_of (Video_run gb_blank [80, 80, 80, 80, 80, 80] video_lcd_off))) = 1"
    by simp
  then have l: "line (state_of (Video_run gb_blank [80, 80, 80, 80, 80, 80] video_lcd_off)) = 1"
    by (simp add: word_unat_eq_iff)
  from off stay m r l lcd_off_vblank_interrupt show ?thesis by simp
qed

text \<open>
  Claim C2, as the code has it. While LCDC bit 7 is 0, \<open>write_scanline\<close> leaves the
  frame buffer as it is, so no background or window line is drawn. The mode
  machine is not held: whether a tick returns, and the mode, LY, the cycle
  counter, STAT, the interrupt flag and the number of frames handed to the host
  after it, do not depend on LCDC.
\<close>

theorem C2_lcd_off_behaviour:
  "(\<not> display_enabled v \<longrightarrow> Video_write_scanline gb v l buf = buf)
   \<and> returned (Video_tick gb c (v\<lparr>control_byte := b\<rparr>)) = returned (Video_tick gb c v)
   \<and> current_mode (state_of (Video_tick gb c (v\<lparr>control_byte := b\<rparr>)))
       = current_mode (state_of (Video_tick gb c v))
   \<and> line (state_of (Video_tick gb c (v\<lparr>control_byte := b\<rparr>)))
       = line (state_of (Video_tick gb c v))
   \<and> cycle_counter (state_of (Video_tick gb c (v\<lparr>control_byte := b\<rparr>)))
       = cycle_counter (state_of (Video_tick gb c v))
   \<and> lcd_status (state_of (Video_tick gb c (v\<lparr>control_byte := b\<rparr>)))
       = lcd_status (state_of (Video_tick gb c v))
   \<and> interrupt_flag (state_of (Video_tick gb c (v\<lparr>control_byte := b\<rparr>)))
       = interrupt_flag (state_of (Video_tick gb c v))
   \<and> length (vblank_calls (state_of (Video_tick gb c (v\<lparr>control_byte := b\<rparr>))))
       = length (vblank_calls (state_of (Video_tick gb c v)))"
  by (simp add: Video_write_scanline_def Video_tick_def Video_draw_def Let_def result_simps
      split: VideoMode.split)

theorem C2_lcd_off_behaviour_witness:
  "\<not> display_enabled video_lcd_off
   \<and> Video_write_scanline gb_blank video_lcd_off 0 (buffer video_lcd_off) = buffer video_lcd_off
   \<and> returned (Video_tick gb_blank 80 video_lcd_off)
       = returned (Video_tick gb_blank 80 (video_lcd_off\<lparr>control_byte := 0x93\<rparr>))
   \<and> current_mode (state_of (Video_tick gb_blank 80 video_lcd_off))
       = current_mode (state_of (Video_tick gb_blank 80 (video_lcd_off\<lparr>control_byte := 0x93\<rparr>)))"
proof -
  have off: "\<not> display_enabled video_lcd_off"
    by (simp add: video_lcd_off_def video_demo_def display_enabled_def check_bit_def)
  show ?thesis
    using off C2_lcd_off_behaviour [of video_lcd_off gb_blank 0 "buffer video_lcd_off" 80 "0x93"]
    by simp
qed

text \<open>
  Claim C8 says that a behind-BG sprite pixel is suppressed exactly where the
  pre-palette colour index of the background is nonzero. \<open>get_original_color_at\<close>,
  documented as returning the colour before the palette, maps the displayed colour
  back instead. With BGP = 0x1B the background pixel at (0, 0) has index 0 and is
  displayed Black; the behind-BG sprite at the top left corner has colour 3 there,
  which OBP0 displays White. \<open>draw_sprite\<close> leaves the pixel Black: the sprite pixel
  is suppressed over a background pixel of index 0.
\<close>

theorem C8_behind_bg_uses_displayed_colour:
  "bg_pixel_color gb_sprite_demo video_demo 0 0 = Color0
   \<and> check_bit (mmu_read gb_sprite_demo 0xFE03) 7
   \<and> tile_get_pixel gb_sprite_demo 0x8010 1 0 0 = Color3
   \<and> get_color_from_palette Color3 (load_palette (sprite_palette_0 video_demo)) = White
   \<and> FrameBuffer_get_pixel 0 0
        (Video_draw_bg_line gb_sprite_demo video_demo 0 (\<lambda>p. White)) = Black
   \<and> FrameBuffer_get_pixel 0 0
        (Video_draw_sprite gb_sprite_demo video_demo 0
           (Video_draw_bg_line gb_sprite_demo video_demo 0 (\<lambda>p. White))) = Black"
proof -
  have b: "Video_draw_bg_line gb_sprite_demo video_demo 0 (\<lambda>p. White) (0, 0) = Black"
    using demo_bg_drawn by (simp add: FrameBuffer_get_pixel_def)
  show ?thesis
    by (simp add: demo_bg_index demo_oam check_bit_def demo_bg_drawn
        demo_sprite_suppressed [of "Video_draw_bg_line gb_sprite_demo video_demo 0 (\<lambda>p. White)", OF b] get_color_from_palette_def load_palette_def
        get_real_color_def video_demo_fields)
qed

section \<open>The orchestrator tick\<close>

lemma parts_demo_keep: "parts_keep_elapsed parts_demo"
  by (simp add: parts_keep_elapsed_def parts_demo_def)

lemma video_tick_frame:
  "returned (video_tick P n h) = returned (Video_tick (bus_of P h) (unat n) (video h))"
  "video (state_of (video_tick P n h)) = state_of (Video_tick (bus_of P h) (unat n) (video h))"
  "audio (state_of (video_tick P n h)) = audio h"
  "elapsed_cycles (state_of (video_tick P n h)) = elapsed_cycles h"
  "others (state_of (video_tick P n h)) = others h"
  by (simp_all add: video_tick_def returned_def state_of_def split: sum.split)

lemma demo_video_tick:
  "Video_tick gb_blank 8 video_demo = Inr (video_demo\<lparr>cycle_counter := 8\<rparr>)"
  by (simp add: Video_tick_def Let_def video_demo_def uint_max_def clock_defs)

lemma demo_gameboy_tick:
  "Gameboy_tick parts_demo (gameboy_demo e) =
     Inr (audio_tick 8 ((gameboy_demo (e + 8))\<lparr>video := video_demo\<lparr>cycle_counter := 8\<rparr>\<rparr>))"
  by (simp add: parts_demo_def gameboy_demo_def Gameboy_tick_def video_tick_def Let_def
      demo_video_tick)

text \<open>
  Claim C3 says that \<open>elapsed_cycles\<close> increases by exactly the cycles of the
  instruction. The counter is a 32-bit \<open>uint\<close>: at 0xFFFFFFFC an instruction of 8
  cycles takes it to 4.
\<close>

theorem C3_elapsed_wraps_counterexample:
  "cpu_tick parts_demo (debugger_cycle parts_demo (gameboy_demo 0xFFFFFFFC))
       = (8, gameboy_demo 0xFFFFFFFC)
   \<and> returned (Gameboy_tick parts_demo (gameboy_demo 0xFFFFFFFC))
   \<and> elapsed_cycles (state_of (Gameboy_tick parts_demo (gameboy_demo 0xFFFFFFFC))) = 4
   \<and> unat (elapsed_cycles (state_of (Gameboy_tick parts_demo (gameboy_demo 0xFFFFFFFC))))
       \<noteq> unat (elapsed_cycles (gameboy_demo 0xFFFFFFFC)) + unat (8 :: 32 word)
   \<and> unat (elapsed_cycles (state_of (Gameboy_tick parts_demo (gameboy_demo 0xFFFFFFFC))))
       < unat (elapsed_cycles (gameboy_demo 0xFFFFFFFC))"
  unfolding demo_gameboy_tick
  by (simp add: parts_demo_def gameboy_demo_def audio_tick_def result_simps)

text \<open>
  Claim C3, with the 32-bit counter. If the CPU step returns \<open>n\<close> cycles,
  \<open>Gameboy::tick\<close> adds \<open>n\<close> to \<open>elapsed_cycles\<close> in the state the CPU left and
  advances the PPU by \<open>n\<close>; when that call returns it then advances the APU by \<open>n\<close>
  and then the timer by \<open>n\<close>, and when it throws (the end of a frame with no frame
  callback registered) the exception leaves \<open>Gameboy::tick\<close> with the APU and the
  timer not advanced. The PPU step is \<open>Video::tick\<close> with \<open>n\<close> cycles on the PPU and
  the APU step is \<open>Audio::tick\<close> with \<open>n\<close> cycles on the APU, and neither touches
  anything else. When the CPU, the debugger and the timer leave \<open>elapsed_cycles\<close>
  alone, its new value is the old one plus \<open>n\<close> modulo \<open>2 ^ 32\<close>, which is an
  increase by exactly \<open>n\<close> unless the counter wraps.
\<close>

theorem C3_tick_order:
  assumes "cpu_tick P (debugger_cycle P g) = (n, g1)"
  shows "Gameboy_tick P g =
           (case video_tick P n (g1\<lparr>elapsed_cycles := elapsed_cycles g1 + n\<rparr>) of
              Inl e \<Rightarrow> Inl e
            | Inr g3 \<Rightarrow> Inr (timer_tick P n (audio_tick n g3)))
       \<and> (\<forall>h. returned (video_tick P n h)
                = returned (Video_tick (bus_of P h) (unat n) (video h))
              \<and> video (state_of (video_tick P n h))
                = state_of (Video_tick (bus_of P h) (unat n) (video h))
              \<and> audio (state_of (video_tick P n h)) = audio h
              \<and> elapsed_cycles (state_of (video_tick P n h)) = elapsed_cycles h
              \<and> others (state_of (video_tick P n h)) = others h)
       \<and> (\<forall>h. audio (audio_tick n h) = Audio_tick (unat n) (audio h)
              \<and> video (audio_tick n h) = video h
              \<and> elapsed_cycles (audio_tick n h) = elapsed_cycles h
              \<and> others (audio_tick n h) = others h)
       \<and> (parts_keep_elapsed P \<longrightarrow>
            elapsed_cycles (state_of (Gameboy_tick P g)) = elapsed_cycles g + n
          \<and> unat (elapsed_cycles (state_of (Gameboy_tick P g)))
              = (unat (elapsed_cycles g) + unat n) mod 2 ^ 32
          \<and> (unat (elapsed_cycles g) + unat n < 2 ^ 32 \<longrightarrow>
               unat (elapsed_cycles (state_of (Gameboy_tick P g)))
                 = unat (elapsed_cycles g) + unat n))"
proof -
  let ?g2 = "g1\<lparr>elapsed_cycles := elapsed_cycles g1 + n\<rparr>"
  have eq: "Gameboy_tick P g =
           (case video_tick P n ?g2 of
              Inl e \<Rightarrow> Inl e
            | Inr g3 \<Rightarrow> Inr (timer_tick P n (audio_tick n g3)))"
    using assms by (simp add: Gameboy_tick_def Let_def split: sum.split)
  have el: "elapsed_cycles (state_of (Gameboy_tick P g)) = elapsed_cycles g + n"
    if k: "parts_keep_elapsed P"
  proof -
    from k have g1: "elapsed_cycles g1 = elapsed_cycles g"
      using assms by (metis parts_keep_elapsed_def snd_conv)
    show ?thesis
    proof (cases "video_tick P n ?g2")
      case (Inl e)
      with video_tick_frame(4) [of P n ?g2] g1 show ?thesis
        unfolding eq by simp
    next
      case (Inr g3)
      with video_tick_frame(4) [of P n ?g2] g1 k show ?thesis
        unfolding eq by (simp add: parts_keep_elapsed_def audio_tick_def result_simps)
    qed
  qed
  have w: "unat (elapsed_cycles g + n) = (unat (elapsed_cycles g) + unat n) mod 2 ^ 32"
    by (simp add: unat_word_ariths)
  have a: "\<forall>h. audio (audio_tick n h) = Audio_tick (unat n) (audio h)
              \<and> video (audio_tick n h) = video h
              \<and> elapsed_cycles (audio_tick n h) = elapsed_cycles h
              \<and> others (audio_tick n h) = others h"
    by (simp add: audio_tick_def)
  have v: "\<forall>h. returned (video_tick P n h)
                = returned (Video_tick (bus_of P h) (unat n) (video h))
              \<and> video (state_of (video_tick P n h))
                = state_of (Video_tick (bus_of P h) (unat n) (video h))
              \<and> audio (state_of (video_tick P n h)) = audio h
              \<and> elapsed_cycles (state_of (video_tick P n h)) = elapsed_cycles h
              \<and> others (state_of (video_tick P n h)) = others h"
    by (simp add: video_tick_frame)
  have c: "parts_keep_elapsed P \<longrightarrow>
            elapsed_cycles (state_of (Gameboy_tick P g)) = elapsed_cycles g + n
          \<and> unat (elapsed_cycles (state_of (Gameboy_tick P g)))
              = (unat (elapsed_cycles g) + unat n) mod 2 ^ 32
          \<and> (unat (elapsed_cycles g) + unat n < 2 ^ 32 \<longrightarrow>
               unat (elapsed_cycles (state_of (Gameboy_tick P g)))
                 = unat (elapsed_cycles g) + unat n)"
    using el w by simp
  show ?thesis by (rule conjI [OF eq conjI [OF v conjI [OF a c]]])
qed

theorem C3_tick_order_witness:
  "cpu_tick parts_demo (debugger_cycle parts_demo (gameboy_demo 100)) = (8, gameboy_demo 100)
   \<and> parts_keep_elapsed parts_demo
   \<and> unat (elapsed_cycles (gameboy_demo 100)) + unat (8 :: 32 word) < 2 ^ 32
   \<and> returned (Gameboy_tick parts_demo (gameboy_demo 100))
   \<and> elapsed_cycles (state_of (Gameboy_tick parts_demo (gameboy_demo 100))) = 108
   \<and> cycle_counter (video (state_of (Gameboy_tick parts_demo (gameboy_demo 100)))) = 8
   \<and> sample_counter (audio (state_of (Gameboy_tick parts_demo (gameboy_demo 100)))) = 8"
proof -
  have c: "cpu_tick parts_demo (debugger_cycle parts_demo (gameboy_demo 100))
      = (8, gameboy_demo 100)"
    by (simp add: parts_demo_def)
  have a: "sample_counter (Audio_tick 8 (Audio_init 0 0 0)) = 8"
    by (simp add: Audio_tick_def tick_channels_def sample_counter_loop cps95 uint_max_def
        Audio_init_def)
  have v: "video_tick parts_demo 8 ((gameboy_demo 100)\<lparr>elapsed_cycles := 108\<rparr>)
      = Inr ((gameboy_demo 100)\<lparr>elapsed_cycles := 108, video := video_demo\<lparr>cycle_counter := 8\<rparr>\<rparr>)"
    by (simp add: video_tick_def parts_demo_def gameboy_demo_def demo_video_tick)
  note t = C3_tick_order [OF c]
  have "elapsed_cycles (state_of (Gameboy_tick parts_demo (gameboy_demo 100))) = 108"
    using t [THEN conjunct2, THEN conjunct2, THEN conjunct2] parts_demo_keep
    by (simp add: gameboy_demo_def)
  moreover have e: "(gameboy_demo 100)\<lparr>elapsed_cycles := elapsed_cycles (gameboy_demo 100) + 8\<rparr>
      = (gameboy_demo 100)\<lparr>elapsed_cycles := 108\<rparr>"
    by (simp add: gameboy_demo_def)
  have "returned (Gameboy_tick parts_demo (gameboy_demo 100))"
    "cycle_counter (video (state_of (Gameboy_tick parts_demo (gameboy_demo 100)))) = 8"
    "sample_counter (audio (state_of (Gameboy_tick parts_demo (gameboy_demo 100)))) = 8"
    unfolding t [THEN conjunct1] e v
    by (simp_all add: parts_demo_def gameboy_demo_def audio_tick_def a result_simps)
  ultimately show ?thesis
    using c parts_demo_keep by (simp add: gameboy_demo_def)
qed

end
